theory Spec2Isabelle
  imports Complex_Main
begin

section \<open>JavaScript values used by the hooks\<close>

text \<open>
  Strings are lists of code units; \<^typ>\<open>char\<close> covers the code units below 256, which is
  where every character the hooks test for lives (the dot, the hexadecimal digits, the letters of
  the preference keywords). An optional string (\<open>string | null | undefined\<close>) is a
  \<^typ>\<open>string option\<close>: the hooks never tell \<open>null\<close> from \<open>undefined\<close> for a string.
\<close>

definition isWhiteSpace :: "char \<Rightarrow> bool" where
  "isWhiteSpace c =
     (c \<in> set [CHR 0x09, CHR 0x0A, CHR 0x0B, CHR 0x0C, CHR 0x0D, CHR 0x20, CHR 0xA0])"

text \<open>
  \<open>String.prototype.trim\<close>: white space and line terminators go, at both ends. Below 256
  these are TAB, LF, VT, FF, CR, the space and the no-break space.
\<close>

definition trim :: "string \<Rightarrow> string" where
  "trim s = rev (dropWhile isWhiteSpace (rev (dropWhile isWhiteSpace s)))"

text \<open>\<open>s.includes('.')\<close> for a one-character needle.\<close>

definition includesChar :: "string \<Rightarrow> char \<Rightarrow> bool" where
  "includesChar s c = (c \<in> set s)"

definition endsWith :: "string \<Rightarrow> string \<Rightarrow> bool" where
  "endsWith s t = (length t \<le> length s \<and> drop (length s - length t) s = t)"

definition toLowerCaseUnit :: "char \<Rightarrow> char" where
  "toLowerCaseUnit c =
     (let n = (of_char c :: nat)
      in if (65 \<le> n \<and> n \<le> 90) \<or> (192 \<le> n \<and> n \<le> 222 \<and> n \<noteq> 215)
         then char_of (n + 32) else c)"

definition toLowerCase :: "string \<Rightarrow> string" where
  "toLowerCase s = map toLowerCaseUnit s"

text \<open>Truthiness of an optional string: \<open>Boolean(x)\<close>, \<open>if (x)\<close>, \<open>x && ...\<close>.\<close>

fun truthy :: "string option \<Rightarrow> bool" where
  "truthy None = False"
| "truthy (Some s) = (s \<noteq> [])"

text \<open>
  A JavaScript number as \<open>parseFloat\<close> returns it. A finite double is the rational it denotes;
  both zeros are \<open>Finite 0\<close>, which the comparisons of the hooks do not tell apart.
\<close>

datatype jsnumber = NaN | NegInfinity | Finite rat | PosInfinity

fun Number_isNaN :: "jsnumber \<Rightarrow> bool" where
  "Number_isNaN NaN = True"
| "Number_isNaN _ = False"

text \<open>\<open>x >= c\<close> and \<open>x <= c\<close> against a finite constant: every comparison with NaN is false.\<close>

fun js_ge :: "jsnumber \<Rightarrow> rat \<Rightarrow> bool" where
  "js_ge NaN c = False"
| "js_ge NegInfinity c = False"
| "js_ge (Finite x) c = (c \<le> x)"
| "js_ge PosInfinity c = True"

fun js_le :: "jsnumber \<Rightarrow> rat \<Rightarrow> bool" where
  "js_le NaN c = False"
| "js_le NegInfinity c = True"
| "js_le (Finite x) c = (x \<le> c)"
| "js_le PosInfinity c = False"

section \<open>Preference decoder (useENSPreferences)\<close>

record ENSPreferences =
  slippage :: "string option"
  theme :: "string option"
  expertMode :: "bool option"
  gasPriority :: "string option"

definition noPreferences :: ENSPreferences where
  "noPreferences = \<lparr>slippage = None, theme = None, expertMode = None, gasPriority = None\<rparr>"

text \<open>
  The four steps of the \<open>preferences\<close> memo, each taking the object built so far and returning
  it with at most its own key set. \<open>parseFloat\<close> is the JavaScript builtin, a parameter here.
\<close>

definition parseSlippage ::
  "(string \<Rightarrow> jsnumber) \<Rightarrow> string option \<Rightarrow> ENSPreferences \<Rightarrow> ENSPreferences" where
  "parseSlippage parseFloat slippageText prefs =
     (case slippageText of
        None \<Rightarrow> prefs
      | Some txt \<Rightarrow>
          if txt = [] then prefs
          else (let n = parseFloat txt
                in if \<not> Number_isNaN n \<and> js_ge n 0 \<and> js_le n 50
                   then prefs\<lparr>slippage := Some txt\<rparr> else prefs))"

definition parseTheme :: "string option \<Rightarrow> ENSPreferences \<Rightarrow> ENSPreferences" where
  "parseTheme themeText prefs =
     (case themeText of
        None \<Rightarrow> prefs
      | Some txt \<Rightarrow>
          if txt \<noteq> [] \<and> (txt = ''dark'' \<or> txt = ''light'')
          then prefs\<lparr>theme := Some txt\<rparr> else prefs)"

definition parseExpertMode :: "string option \<Rightarrow> ENSPreferences \<Rightarrow> ENSPreferences" where
  "parseExpertMode expertModeText prefs =
     (case expertModeText of
        None \<Rightarrow> prefs
      | Some txt \<Rightarrow>
          if txt = [] then prefs
          else prefs\<lparr>expertMode := Some (toLowerCase txt = ''true'')\<rparr>)"

definition parseGasPriority :: "string option \<Rightarrow> ENSPreferences \<Rightarrow> ENSPreferences" where
  "parseGasPriority gasText prefs =
     (case gasText of
        None \<Rightarrow> prefs
      | Some txt \<Rightarrow>
          if txt \<noteq> [] \<and> toLowerCase txt \<in> set [''low'', ''medium'', ''high'']
          then prefs\<lparr>gasPriority := Some (toLowerCase txt)\<rparr> else prefs)"

definition preferences ::
  "(string \<Rightarrow> jsnumber) \<Rightarrow> string option \<Rightarrow> string option \<Rightarrow> string option \<Rightarrow> string option
     \<Rightarrow> ENSPreferences" where
  "preferences parseFloat slippageText themeText expertModeText gasText =
     parseGasPriority gasText
       (parseExpertMode expertModeText
          (parseTheme themeText
             (parseSlippage parseFloat slippageText noPreferences)))"

text \<open>\<open>Object.keys\<close> of the preference object: the keys that were set, in the order of setting.\<close>

definition Object_keys :: "ENSPreferences \<Rightarrow> string list" where
  "Object_keys prefs =
     (case slippage prefs of None \<Rightarrow> [] | Some _ \<Rightarrow> [''slippage'']) @
     (case theme prefs of None \<Rightarrow> [] | Some _ \<Rightarrow> [''theme'']) @
     (case expertMode prefs of None \<Rightarrow> [] | Some _ \<Rightarrow> [''expertMode'']) @
     (case gasPriority prefs of None \<Rightarrow> [] | Some _ \<Rightarrow> [''gasPriority''])"

definition hasAnyPreferences :: "ENSPreferences \<Rightarrow> bool" where
  "hasAnyPreferences prefs = (length (Object_keys prefs) > 0)"

text \<open>A field of the preference object is present when its key was set.\<close>

fun present :: "'a option \<Rightarrow> bool" where
  "present None = False"
| "present (Some _) = True"

section \<open>External collaborators\<close>

text \<open>
  Modelled from the spec: the chain identifiers of the chains package are not in the repository.
  The hooks compare the active chain with four of them only; every other chain is
  \<open>OTHER_CHAIN\<close> with its number.
\<close>

datatype ChainId = ETHEREUM | GOERLI | BSC | BSC_TESTNET | OTHER_CHAIN nat

datatype NormalizationError = NormalizationError string

datatype console_call =
    ConsoleWarn string NormalizationError
  | ConsoleError string NormalizationError

text \<open>What a query hook hands back on a render: \<open>data\<close>, \<open>isLoading\<close>, \<open>isError\<close>.\<close>

record 'a query =
  q_data :: "'a option"
  q_isLoading :: bool
  q_isError :: bool

definition idle :: "'a query" where
  "idle = \<lparr>q_data = None, q_isLoading = False, q_isError = False\<rparr>"

text \<open>
  Everything a hook reads from outside on one render: the active chain, the two library
  functions \<open>isAddress\<close> and \<open>normalize\<close> (here \<open>ens_normalize\<close>; a throw is \<open>Inl\<close>), and the state of each
  lookup the name service and the chain would answer, by chain, name, key and contract address.
\<close>

record env =
  activeChainId :: ChainId
  isAddress :: "string \<Rightarrow> bool"
  ens_normalize :: "string \<Rightarrow> NormalizationError + string"
  ensAddress :: "ChainId \<Rightarrow> string \<Rightarrow> string query"
  ensAvatar :: "ChainId \<Rightarrow> string \<Rightarrow> string query"
  ensText :: "ChainId \<Rightarrow> string \<Rightarrow> string \<Rightarrow> string query"
  readDecimals :: "ChainId \<Rightarrow> string \<Rightarrow> nat query"

text \<open>
  Modelled from the spec: the query hooks of the wallet library are not in the repository. Each
  takes the subject of the lookup and the \<open>enabled\<close> flag the source computes; a lookup that is
  not enabled, or has no subject, is not issued and reports no data and no loading (the
  gating contract of the spec's design notes). An issued lookup reports what the environment
  holds for it.
\<close>

definition useEnsAddress :: "env \<Rightarrow> string option \<Rightarrow> ChainId \<Rightarrow> bool \<Rightarrow> string query" where
  "useEnsAddress e name chainId enabled =
     (case name of
        None \<Rightarrow> idle
      | Some n \<Rightarrow> if enabled then ensAddress e chainId n else idle)"

definition useEnsAvatar :: "env \<Rightarrow> string option \<Rightarrow> ChainId \<Rightarrow> bool \<Rightarrow> string query" where
  "useEnsAvatar e name chainId enabled =
     (case name of
        None \<Rightarrow> idle
      | Some n \<Rightarrow> if enabled then ensAvatar e chainId n else idle)"

definition useEnsText ::
  "env \<Rightarrow> string option \<Rightarrow> string \<Rightarrow> ChainId \<Rightarrow> bool \<Rightarrow> string query" where
  "useEnsText e name key chainId enabled =
     (case name of
        None \<Rightarrow> idle
      | Some n \<Rightarrow> if enabled then ensText e chainId n key else idle)"

definition useReadContract :: "env \<Rightarrow> string option \<Rightarrow> ChainId \<Rightarrow> bool \<Rightarrow> nat query" where
  "useReadContract e address chainId enabled =
     (case address of
        None \<Rightarrow> idle
      | Some a \<Rightarrow> if enabled then readDecimals e chainId a else idle)"

section \<open>Name resolver (useENSProfile, useResolveAddressOrENS)\<close>

record SocialRecords =
  twitter :: "string option"
  github :: "string option"
  discord :: "string option"
  telegram :: "string option"
  email :: "string option"
  url :: "string option"

record ENSProfile =
  prof_address :: "string option"
  prof_avatar :: "string option"
  prof_isLoading :: bool
  prof_socialRecords :: SocialRecords
  prof_isValid :: bool

definition isENSSupported :: "env \<Rightarrow> bool" where
  "isENSSupported e = (activeChainId e \<noteq> BSC \<and> activeChainId e \<noteq> BSC_TESTNET)"

text \<open>
  The \<open>normalizedName\<close> memo of useENSProfile, with what it writes to the console: the
  \<open>catch\<close> branch logs the error and returns \<open>undefined\<close>.
\<close>

definition profile_normalizedName :: "env \<Rightarrow> string option \<Rightarrow> string option \<times> console_call list" where
  "profile_normalizedName e ensName =
     (case ensName of
        None \<Rightarrow> (None, [])
      | Some s \<Rightarrow>
          if s = [] then (None, [])
          else if includesChar s CHR ''.'' then
            (case ens_normalize e s of
               Inr normalized \<Rightarrow> (Some normalized, [])
             | Inl error \<Rightarrow> (None, [ConsoleError ''Error normalizing ENS name:'' error]))
          else (None, []))"

definition profile_shouldFetch :: "env \<Rightarrow> string option \<Rightarrow> bool \<Rightarrow> bool" where
  "profile_shouldFetch e ensName enabled =
     (enabled \<and> isENSSupported e \<and> truthy (fst (profile_normalizedName e ensName)))"

definition profile_chainId :: "env \<Rightarrow> ChainId" where
  "profile_chainId e = (if activeChainId e = GOERLI then GOERLI else ETHEREUM)"

text \<open>The \<open>enabled\<close> flag of each of the six text-record lookups.\<close>

definition profile_textEnabled :: "env \<Rightarrow> string option \<Rightarrow> bool \<Rightarrow> bool" where
  "profile_textEnabled e ensName enabled =
     (let shouldFetch = profile_shouldFetch e ensName enabled;
          normalizedName = fst (profile_normalizedName e ensName);
          address = q_data (useEnsAddress e normalizedName (profile_chainId e) shouldFetch)
      in shouldFetch \<and> truthy address)"

definition useENSProfile :: "env \<Rightarrow> string option \<Rightarrow> bool \<Rightarrow> ENSProfile" where
  "useENSProfile e ensName enabled =
     (let normalizedName = fst (profile_normalizedName e ensName);
          shouldFetch = profile_shouldFetch e ensName enabled;
          chainId = profile_chainId e;
          addressQ = useEnsAddress e normalizedName chainId shouldFetch;
          avatarQ = useEnsAvatar e normalizedName chainId shouldFetch;
          address = q_data addressQ;
          textRecord = (\<lambda>key. q_data (useEnsText e normalizedName key chainId
                                         (shouldFetch \<and> truthy address)))
      in \<lparr>prof_address = address,
          prof_avatar = q_data avatarQ,
          prof_isLoading = (q_isLoading addressQ \<or> q_isLoading avatarQ),
          prof_socialRecords =
            \<lparr>twitter = textRecord ''com.twitter'',
             github = textRecord ''com.github'',
             discord = textRecord ''com.discord'',
             telegram = textRecord ''org.telegram'',
             email = textRecord ''email'',
             url = textRecord ''url''\<rparr>,
          prof_isValid = truthy address\<rparr>)"

definition isHexDigit :: "char \<Rightarrow> bool" where
  "isHexDigit c = (c \<in> set ''0123456789abcdefABCDEF'')"

text \<open>The regular expression \<open>/^0x[a-fA-F0-9]{40}$/\<close>.\<close>

definition addressPattern :: "string \<Rightarrow> bool" where
  "addressPattern s = (length s = 42 \<and> take 2 s = ''0x'' \<and> list_all isHexDigit (drop 2 s))"

definition resolve_isAddress :: "string option \<Rightarrow> bool" where
  "resolve_isAddress input =
     (case input of
        None \<Rightarrow> False
      | Some s \<Rightarrow> if s = [] then False else addressPattern s)"

definition resolve_isENSName :: "string option \<Rightarrow> bool" where
  "resolve_isENSName input =
     (case input of
        None \<Rightarrow> False
      | Some s \<Rightarrow> if s = [] then False
                  else includesChar s CHR ''.'' \<and> \<not> resolve_isAddress input)"

record ResolveResult =
  res_address :: "string option"
  res_isENSName :: bool
  res_ensName :: "string option"
  res_avatar :: "string option"
  res_socialRecords :: "SocialRecords option"
  res_isLoading :: bool
  res_isValid :: bool

definition useResolveAddressOrENS :: "env \<Rightarrow> string option \<Rightarrow> bool \<Rightarrow> ResolveResult" where
  "useResolveAddressOrENS e input enabled =
     (let isAddr = resolve_isAddress input;
          isENSName = resolve_isENSName input;
          ensProfile = useENSProfile e (if isENSName then input else None) (enabled \<and> isENSName)
      in if isAddr then
           \<lparr>res_address = input, res_isENSName = False, res_ensName = None, res_avatar = None,
            res_socialRecords = None, res_isLoading = False, res_isValid = True\<rparr>
         else if isENSName then
           \<lparr>res_address = prof_address ensProfile, res_isENSName = True, res_ensName = input,
            res_avatar = prof_avatar ensProfile,
            res_socialRecords = Some (prof_socialRecords ensProfile),
            res_isLoading = prof_isLoading ensProfile, res_isValid = prof_isValid ensProfile\<rparr>
         else
           \<lparr>res_address = None, res_isENSName = False, res_ensName = None, res_avatar = None,
            res_socialRecords = None, res_isLoading = False, res_isValid = False\<rparr>)"

text \<open>
  The lookups useResolveAddressOrENS can cause are those of the useENSProfile it calls: the
  address and avatar lookups run under \<open>shouldFetch\<close>, the text-record lookups under
  \<open>shouldFetch && Boolean(address)\<close>.
\<close>

definition resolve_shouldFetch :: "env \<Rightarrow> string option \<Rightarrow> bool \<Rightarrow> bool" where
  "resolve_shouldFetch e input enabled =
     profile_shouldFetch e (if resolve_isENSName input then input else None)
       (enabled \<and> resolve_isENSName input)"

definition resolve_textEnabled :: "env \<Rightarrow> string option \<Rightarrow> bool \<Rightarrow> bool" where
  "resolve_textEnabled e input enabled =
     profile_textEnabled e (if resolve_isENSName input then input else None)
       (enabled \<and> resolve_isENSName input)"

text \<open>The three outcomes of classification: the branch the final memo takes.\<close>

datatype InputClass = Address | ENSName | Invalid

definition resolve_class :: "string option \<Rightarrow> InputClass" where
  "resolve_class input =
     (if resolve_isAddress input then Address
      else if resolve_isENSName input then ENSName
      else Invalid)"

section \<open>Token-address resolver (useENSTokenAddress)\<close>

text \<open>
  The repository holds the hook twice: with the ERC-20 verification step (the file whose
  documentation starts "Hook to resolve ENS names to token contract addresses with ERC20
  verification"), here \<open>useENSTokenAddress\<close>, and without it
  (\<open>apps/web/src/hooks/useENSTokenAddress.ts\<close>), here \<open>useENSTokenAddress_plain\<close>. The
  \<open>resolvedAddress\<close> memo, the two lookups and the chain choice are the same text in both.
\<close>

record Classification =
  cls_isENSName :: bool
  cls_normalizedName :: "string option"
  cls_console :: "console_call list"

definition notENSName :: Classification where
  "notENSName = \<lparr>cls_isENSName = False, cls_normalizedName = None, cls_console = []\<rparr>"

text \<open>The first memo of the hook with verification: \<open>{ isENSName, normalizedName }\<close>.\<close>

definition classifyInput :: "env \<Rightarrow> string option \<Rightarrow> Classification" where
  "classifyInput e input =
     (case input of
        None \<Rightarrow> notENSName
      | Some s \<Rightarrow>
          if s = [] \<or> trim s = [] then notENSName
          else (let trimmed = trim s
                in if isAddress e trimmed then notENSName
                   else if includesChar trimmed CHR ''.'' then
                     (case ens_normalize e trimmed of
                        Inr normalized \<Rightarrow>
                          \<lparr>cls_isENSName = True, cls_normalizedName = Some normalized,
                           cls_console = []\<rparr>
                      | Inl error \<Rightarrow>
                          \<lparr>cls_isENSName = False, cls_normalizedName = None,
                           cls_console = [ConsoleWarn ''Failed to normalize ENS name:'' error]\<rparr>)
                   else notENSName))"

text \<open>The same memo in the hook without verification: the dot test has one more disjunct.\<close>

definition classifyInput_plain :: "env \<Rightarrow> string option \<Rightarrow> Classification" where
  "classifyInput_plain e input =
     (case input of
        None \<Rightarrow> notENSName
      | Some s \<Rightarrow>
          if s = [] \<or> trim s = [] then notENSName
          else (let trimmed = trim s
                in if isAddress e trimmed then notENSName
                   else if endsWith trimmed ''.eth'' \<or> includesChar trimmed CHR ''.'' then
                     (case ens_normalize e trimmed of
                        Inr normalized \<Rightarrow>
                          \<lparr>cls_isENSName = True, cls_normalizedName = Some normalized,
                           cls_console = []\<rparr>
                      | Inl error \<Rightarrow>
                          \<lparr>cls_isENSName = False, cls_normalizedName = None,
                           cls_console = [ConsoleWarn ''Failed to normalize ENS name:'' error]\<rparr>)
                   else notENSName))"

definition ensChainId :: "env \<Rightarrow> ChainId" where
  "ensChainId e =
     (if activeChainId e = ETHEREUM \<or> activeChainId e = GOERLI then activeChainId e
      else ETHEREUM)"

text \<open>The \<open>enabled\<close> flag both name lookups are issued under.\<close>

definition tokenLookupEnabled :: "Classification \<Rightarrow> bool \<Rightarrow> bool" where
  "tokenLookupEnabled c enabled =
     (cls_isENSName c \<and> enabled \<and> cls_normalizedName c \<noteq> None)"

definition primaryAddressQuery :: "env \<Rightarrow> Classification \<Rightarrow> bool \<Rightarrow> string query" where
  "primaryAddressQuery e c enabled =
     useEnsAddress e (cls_normalizedName c) (ensChainId e) (tokenLookupEnabled c enabled)"

definition tokenTextRecordQuery :: "env \<Rightarrow> Classification \<Rightarrow> bool \<Rightarrow> string query" where
  "tokenTextRecordQuery e c enabled =
     useEnsText e (cls_normalizedName c) ''token'' (ensChainId e) (tokenLookupEnabled c enabled)"

text \<open>\<open>x && isAddress(x)\<close> for a record value, and \<open>input && isAddress(input.trim())\<close>.\<close>

definition validAddress :: "env \<Rightarrow> string option \<Rightarrow> bool" where
  "validAddress e x = (case x of None \<Rightarrow> False | Some a \<Rightarrow> a \<noteq> [] \<and> isAddress e a)"

definition validInputAddress :: "env \<Rightarrow> string option \<Rightarrow> bool" where
  "validInputAddress e input =
     (case input of None \<Rightarrow> False | Some s \<Rightarrow> s \<noteq> [] \<and> isAddress e (trim s))"

definition resolvedAddress ::
  "env \<Rightarrow> string option \<Rightarrow> bool \<Rightarrow> string option \<Rightarrow> string option \<Rightarrow> string option" where
  "resolvedAddress e input isENSName tokenTextRecord primaryAddress =
     (if \<not> isENSName \<and> validInputAddress e input then map_option trim input
      else if validAddress e tokenTextRecord then tokenTextRecord
      else if validAddress e primaryAddress then primaryAddress
      else None)"

text \<open>The verification read: \<open>decimals()\<close> on the resolved address, on the active chain.\<close>

definition decimalsQuery :: "env \<Rightarrow> string option \<Rightarrow> nat query" where
  "decimalsQuery e resolved = useReadContract e resolved (activeChainId e) (truthy resolved)"

definition isERC20Token :: "string option \<Rightarrow> nat query \<Rightarrow> bool" where
  "isERC20Token resolved decimalsQ =
     (truthy resolved \<and> q_data decimalsQ \<noteq> None \<and> \<not> q_isError decimalsQ)"

definition isValidToken :: "env \<Rightarrow> string option \<Rightarrow> bool \<Rightarrow> string option \<Rightarrow> bool \<Rightarrow> bool" where
  "isValidToken e input isENSName resolved isERC20 =
     (case input of
        None \<Rightarrow> False
      | Some s \<Rightarrow>
          if s = [] \<or> trim s = [] then False
          else if isENSName then resolved \<noteq> None \<and> isERC20
          else isAddress e (trim s) \<and> isERC20)"

definition isValidToken_plain :: "env \<Rightarrow> string option \<Rightarrow> bool \<Rightarrow> string option \<Rightarrow> bool" where
  "isValidToken_plain e input isENSName resolved =
     (case input of
        None \<Rightarrow> False
      | Some s \<Rightarrow>
          if s = [] \<or> trim s = [] then False
          else if isENSName then resolved \<noteq> None
          else isAddress e (trim s))"

record TokenAddress =
  tok_address :: "string option"
  tok_isENSName :: bool
  tok_ensName :: "string option"
  tok_isLoading :: bool
  tok_isValid :: bool
  tok_hasTokenRecord :: bool

record VerifiedTokenAddress = TokenAddress +
  tok_isERC20Token :: bool
  tok_decimals :: "nat option"

definition useENSTokenAddress :: "env \<Rightarrow> string option \<Rightarrow> bool \<Rightarrow> VerifiedTokenAddress" where
  "useENSTokenAddress e input enabled =
     (let c = classifyInput e input;
          primaryQ = primaryAddressQuery e c enabled;
          tokenQ = tokenTextRecordQuery e c enabled;
          resolved = resolvedAddress e input (cls_isENSName c) (q_data tokenQ) (q_data primaryQ);
          decimalsQ = decimalsQuery e resolved;
          isERC20 = isERC20Token resolved decimalsQ
      in \<lparr>tok_address = resolved,
          tok_isENSName = cls_isENSName c,
          tok_ensName = (if cls_isENSName c then cls_normalizedName c else None),
          tok_isLoading =
            (cls_isENSName c \<and>
             (q_isLoading primaryQ \<or> q_isLoading tokenQ \<or> q_isLoading decimalsQ)),
          tok_isValid = isValidToken e input (cls_isENSName c) resolved isERC20,
          tok_hasTokenRecord = validAddress e (q_data tokenQ),
          tok_isERC20Token = isERC20,
          tok_decimals = q_data decimalsQ\<rparr>)"

definition useENSTokenAddress_plain :: "env \<Rightarrow> string option \<Rightarrow> bool \<Rightarrow> TokenAddress" where
  "useENSTokenAddress_plain e input enabled =
     (let c = classifyInput_plain e input;
          primaryQ = primaryAddressQuery e c enabled;
          tokenQ = tokenTextRecordQuery e c enabled;
          resolved = resolvedAddress e input (cls_isENSName c) (q_data tokenQ) (q_data primaryQ)
      in \<lparr>tok_address = resolved,
          tok_isENSName = cls_isENSName c,
          tok_ensName = (if cls_isENSName c then cls_normalizedName c else None),
          tok_isLoading = (cls_isENSName c \<and> (q_isLoading primaryQ \<or> q_isLoading tokenQ)),
          tok_isValid = isValidToken_plain e input (cls_isENSName c) resolved,
          tok_hasTokenRecord = validAddress e (q_data tokenQ)\<rparr>)"

text \<open>
  The path the later memos of the token resolver take: the name path under \<open>isENSName\<close>, the
  address path under \<open>!isENSName && input && isAddress(input.trim())\<close>, neither otherwise.
\<close>

definition token_class :: "env \<Rightarrow> string option \<Rightarrow> InputClass" where
  "token_class e input =
     (if cls_isENSName (classifyInput e input) then ENSName
      else if validInputAddress e input then Address
      else Invalid)"

section \<open>The library's address test\<close>

text \<open>
  \<open>isAddress\<close> of the Ethereum library is not in the repository; the hooks take it as it is,
  and so does the environment above. In its default strict mode the library accepts a string
  that matches the address pattern and either has no upper-case letter or is spelled as its
  EIP-55 checksum. The checksum hashes the lower-case digits; it is a parameter here.
\<close>

definition viem_isAddress :: "(string \<Rightarrow> string) \<Rightarrow> string \<Rightarrow> bool" where
  "viem_isAddress checksumAddress a =
     (if \<not> addressPattern a then False
      else if toLowerCase a = a then True
      else checksumAddress a = a)"

section \<open>A sample environment\<close>

text \<open>
  Concrete inputs for evaluating the hooks: mainnet, the library's strict \<open>isAddress\<close>, a
  normalizer that lowers the case and rejects the empty label, two registered names and one
  token contract. \<open>vitalik.eth\<close> resolves to an account that is no token; \<open>dai.eth\<close> resolves
  to the same account and carries a \<open>token\<close> record that points to a contract answering
  \<open>decimals()\<close>. Both addresses are written in their checksum spelling.
\<close>

definition tokenContract :: string where
  "tokenContract = ''0x6B175474E89094C44Da98b954EedeAC495271d0F''"

definition ownerAccount :: string where
  "ownerAccount = ''0xd8dA6BF26964aF9D7eEd9e03E53415D37aA96045''"

text \<open>
  The address of the spec's end-to-end example, all in upper case, and the same address in
  lower case. Its checksum spelling is neither.
\<close>

definition upperCaseAddress :: string where
  "upperCaseAddress = ''0xABCDEF0123456789ABCDEF0123456789ABCDEF01''"

definition lowerCaseAddress :: string where
  "lowerCaseAddress = ''0xabcdef0123456789abcdef0123456789abcdef01''"

text \<open>
  The EIP-55 checksum on the three addresses of the samples; a string that is none of them is
  returned in lower case.
\<close>

definition sample_checksumAddress :: "string \<Rightarrow> string" where
  "sample_checksumAddress a =
     (if toLowerCase a = ''0x6b175474e89094c44da98b954eedeac495271d0f'' then tokenContract
      else if toLowerCase a = ''0xd8da6bf26964af9d7eed9e03e53415d37aa96045'' then ownerAccount
      else if toLowerCase a = ''0xabcdef0123456789abcdef0123456789abcdef01''
      then ''0xabCDeF0123456789AbcdEf0123456789aBCDEF01''
      else toLowerCase a)"

definition settled :: "'a option \<Rightarrow> 'a query" where
  "settled d = \<lparr>q_data = d, q_isLoading = False, q_isError = False\<rparr>"

definition sample_env :: env where
  "sample_env =
     \<lparr>activeChainId = ETHEREUM,
      isAddress = viem_isAddress sample_checksumAddress,
      ens_normalize = (\<lambda>s. if s = ''bad..eth'' then Inl (NormalizationError ''empty label'')
                       else Inr (toLowerCase s)),
      ensAddress = (\<lambda>chainId name.
         if chainId = ETHEREUM \<and> (name = ''vitalik.eth'' \<or> name = ''dai.eth'')
         then settled (Some ownerAccount) else settled None),
      ensAvatar = (\<lambda>chainId name. settled None),
      ensText = (\<lambda>chainId name key.
         if chainId = ETHEREUM \<and> name = ''dai.eth'' \<and> key = ''token''
         then settled (Some tokenContract) else settled None),
      readDecimals = (\<lambda>chainId a.
         if a = tokenContract then settled (Some 18)
         else \<lparr>q_data = None, q_isLoading = False, q_isError = True\<rparr>)\<rparr>"

text \<open>What \<open>parseFloat\<close> answers on the three slippage texts of the spec's examples.\<close>

definition sample_parseFloat :: "string \<Rightarrow> jsnumber" where
  "sample_parseFloat s =
     (if s = ''0.5'' then Finite (1 / 2) else if s = ''75'' then Finite 75 else NaN)"

section \<open>Facts about the string helpers\<close>

lemma isHexDigit_not_space: "isHexDigit c \<Longrightarrow> \<not> isWhiteSpace c"
  by (auto simp: isHexDigit_def isWhiteSpace_def)

lemma isHexDigit_not_dot: "isHexDigit c \<Longrightarrow> c \<noteq> CHR ''.''"
  by (auto simp: isHexDigit_def)

lemma addressPattern_nonempty: "addressPattern s \<Longrightarrow> s \<noteq> []"
  by (auto simp: addressPattern_def)

lemma addressPattern_shape:
  assumes "addressPattern s"
  obtains hs where "s = CHR ''0'' # CHR ''x'' # hs" "length hs = 40" "list_all isHexDigit hs"
proof -
  from assms have len: "length s = 42" and pre: "take 2 s = ''0x''"
    and hex: "list_all isHexDigit (drop 2 s)"
    by (simp_all add: addressPattern_def)
  from len obtain a b hs where s: "s = a # b # hs"
    by (cases s; cases "tl s") auto
  with pre have "a = CHR ''0''" "b = CHR ''x''" by (simp_all add: numeral_2_eq_2)
  with s len hex show ?thesis by (intro that[of hs]) (simp_all add: numeral_2_eq_2)
qed

lemma addressPattern_no_dot: "addressPattern s \<Longrightarrow> \<not> includesChar s CHR ''.''"
  by (erule addressPattern_shape) (auto simp: includesChar_def list_all_iff dest: isHexDigit_not_dot)

lemma trim_id:
  assumes "s \<noteq> []" "\<not> isWhiteSpace (hd s)" "\<not> isWhiteSpace (last s)"
  shows "trim s = s"
proof -
  from assms have a: "dropWhile isWhiteSpace s = s" by (cases s) auto
  from assms have "rev s \<noteq> []" "\<not> isWhiteSpace (hd (rev s))" by (simp_all add: hd_rev)
  then have "dropWhile isWhiteSpace (rev s) = rev s" by (cases "rev s") auto
  with a show ?thesis by (simp add: trim_def)
qed

lemma addressPattern_trim: "addressPattern s \<Longrightarrow> trim s = s"
proof (erule addressPattern_shape)
  fix hs assume s: "s = CHR ''0'' # CHR ''x'' # hs" and len: "length hs = 40"
    and hex: "list_all isHexDigit hs"
  from len have "hs \<noteq> []" by auto
  with hex have "isHexDigit (last hs)" by (simp add: list_all_iff)
  then have "\<not> isWhiteSpace (last hs)" by (rule isHexDigit_not_space)
  with s \<open>hs \<noteq> []\<close> show "trim s = s"
    by (intro trim_id) (simp_all add: isWhiteSpace_def)
qed

lemma trim_Nil: "trim [] = []"
  by (simp add: trim_def)

lemma in_set_dropWhile_keep: "x \<in> set xs \<Longrightarrow> \<not> P x \<Longrightarrow> x \<in> set (dropWhile P xs)"
  by (induction xs) auto

lemma trim_keeps: "includesChar s c \<Longrightarrow> \<not> isWhiteSpace c \<Longrightarrow> includesChar (trim s) c"
  unfolding includesChar_def trim_def
  by (simp add: in_set_dropWhile_keep)

lemma dot_not_space: "\<not> isWhiteSpace CHR ''.''"
  by (simp add: isWhiteSpace_def)

lemma includesChar_nonempty: "includesChar s c \<Longrightarrow> s \<noteq> []"
  by (auto simp: includesChar_def)

lemma endsWith_eth_includes_dot: "endsWith s ''.eth'' \<Longrightarrow> includesChar s CHR ''.''"
proof -
  assume "endsWith s ''.eth''"
  then have "drop (length s - length ''.eth'') s = ''.eth''" by (simp only: endsWith_def)
  then have "CHR ''.'' \<in> set (drop (length s - length ''.eth'') s)" by simp
  then show ?thesis unfolding includesChar_def by (rule in_set_dropD)
qed

section \<open>Facts about the preference decoder\<close>

text \<open>
  Each field of the decoded object, as a function of the four record texts.
\<close>

lemma slippage_preferences:
  "slippage (preferences pf st tt et gt) =
     (if (\<exists>txt. st = Some txt \<and> txt \<noteq> [] \<and> (\<exists>x. pf txt = Finite x \<and> 0 \<le> x \<and> x \<le> 50))
      then st else None)"
proof (cases st)
  case None
  then show ?thesis
    by (simp add: preferences_def parseSlippage_def parseTheme_def parseExpertMode_def
        parseGasPriority_def noPreferences_def split: option.splits)
next
  case (Some s)
  then show ?thesis
    by (cases "pf s")
       (simp_all add: preferences_def parseSlippage_def parseTheme_def parseExpertMode_def
          parseGasPriority_def noPreferences_def split: option.splits)
qed

lemma theme_preferences:
  "theme (preferences pf st tt et gt) =
     (if tt = Some ''dark'' \<or> tt = Some ''light'' then tt else None)"
  by (cases "pf (the st)")
     (auto simp add: preferences_def parseSlippage_def parseTheme_def parseExpertMode_def
        parseGasPriority_def noPreferences_def Let_def split: option.splits)

lemma expertMode_preferences:
  "expertMode (preferences pf st tt et gt) =
     (case et of None \<Rightarrow> None
      | Some txt \<Rightarrow> if txt = [] then None else Some (toLowerCase txt = ''true''))"
  by (cases "pf (the st)")
     (auto simp add: preferences_def parseSlippage_def parseTheme_def parseExpertMode_def
        parseGasPriority_def noPreferences_def Let_def split: option.splits)

lemma gasPriority_preferences:
  "gasPriority (preferences pf st tt et gt) =
     (case gt of None \<Rightarrow> None
      | Some txt \<Rightarrow>
          if toLowerCase txt = ''low'' \<or> toLowerCase txt = ''medium'' \<or> toLowerCase txt = ''high''
          then Some (toLowerCase txt) else None)"
  by (cases "pf (the st)")
     (auto simp add: preferences_def parseSlippage_def parseTheme_def parseExpertMode_def
        parseGasPriority_def noPreferences_def Let_def toLowerCase_def split: option.splits)

lemma hasAny_present:
  "hasAnyPreferences p =
     (present (slippage p) \<or> present (theme p) \<or> present (expertMode p) \<or> present (gasPriority p))"
  by (simp add: hasAnyPreferences_def Object_keys_def split: option.splits)

section \<open>Facts about the token-address resolver\<close>

text \<open>
  The extra \<open>endsWith('.eth')\<close> disjunct changes nothing: both hooks classify alike.
\<close>

lemma classifyInput_plain_eq: "classifyInput_plain e input = classifyInput e input"
  using endsWith_eth_includes_dot
  by (auto simp: classifyInput_plain_def classifyInput_def Let_def split: option.splits sum.splits)

lemma idle_sel: "q_data idle = None" "q_isLoading idle = False" "q_isError idle = False"
  by (simp_all add: idle_def)

lemma not_ens_queries:
  "\<not> cls_isENSName c \<Longrightarrow> primaryAddressQuery e c enabled = idle"
  "\<not> cls_isENSName c \<Longrightarrow> tokenTextRecordQuery e c enabled = idle"
  by (simp_all add: primaryAddressQuery_def tokenTextRecordQuery_def tokenLookupEnabled_def
      useEnsAddress_def useEnsText_def split: option.splits)

lemma classifyInput_None: "classifyInput e None = notENSName"
  by (simp add: classifyInput_def)

lemma classifyInput_blank: "trim s = [] \<Longrightarrow> classifyInput e (Some s) = notENSName"
  by (simp add: classifyInput_def)

lemma classifyInput_address:
  "isAddress e (trim s) \<Longrightarrow> classifyInput e (Some s) = notENSName"
  by (simp add: classifyInput_def Let_def)

lemma classifyInput_no_dot:
  "\<not> includesChar (trim s) CHR ''.'' \<Longrightarrow> classifyInput e (Some s) = notENSName"
  by (simp add: classifyInput_def Let_def)

lemma classifyInput_name:
  "trim s \<noteq> [] \<Longrightarrow> \<not> isAddress e (trim s) \<Longrightarrow> includesChar (trim s) CHR ''.'' \<Longrightarrow>
   ens_normalize e (trim s) = Inr n \<Longrightarrow>
   classifyInput e (Some s) =
     \<lparr>cls_isENSName = True, cls_normalizedName = Some n, cls_console = []\<rparr>"
  by (auto simp add: classifyInput_def Let_def trim_Nil)

lemma classifyInput_failure:
  "trim s \<noteq> [] \<Longrightarrow> \<not> isAddress e (trim s) \<Longrightarrow> includesChar (trim s) CHR ''.'' \<Longrightarrow>
   ens_normalize e (trim s) = Inl err \<Longrightarrow>
   classifyInput e (Some s) =
     \<lparr>cls_isENSName = False, cls_normalizedName = None,
      cls_console = [ConsoleWarn ''Failed to normalize ENS name:'' err]\<rparr>"
  by (auto simp add: classifyInput_def Let_def trim_Nil)

lemma classifyInput_ens_cases:
  assumes "cls_isENSName (classifyInput e input)"
  obtains s n where "input = Some s" "trim s \<noteq> []" "\<not> isAddress e (trim s)"
    "includesChar (trim s) CHR ''.''" "ens_normalize e (trim s) = Inr n"
    "cls_normalizedName (classifyInput e input) = Some n"
  using assms
  by (auto simp add: classifyInput_def Let_def notENSName_def
      split: option.splits if_splits sum.splits)

text \<open>
  The fields of the two results, in terms of the memos.
\<close>

lemma tok_fields:
  "tok_address (useENSTokenAddress e input enabled) =
     resolvedAddress e input (cls_isENSName (classifyInput e input))
       (q_data (tokenTextRecordQuery e (classifyInput e input) enabled))
       (q_data (primaryAddressQuery e (classifyInput e input) enabled))"
  "tok_isENSName (useENSTokenAddress e input enabled) = cls_isENSName (classifyInput e input)"
  "tok_ensName (useENSTokenAddress e input enabled) =
     (if cls_isENSName (classifyInput e input) then cls_normalizedName (classifyInput e input)
      else None)"
  "tok_hasTokenRecord (useENSTokenAddress e input enabled) =
     validAddress e (q_data (tokenTextRecordQuery e (classifyInput e input) enabled))"
  "tok_isERC20Token (useENSTokenAddress e input enabled) =
     isERC20Token (tok_address (useENSTokenAddress e input enabled))
       (decimalsQuery e (tok_address (useENSTokenAddress e input enabled)))"
  "tok_decimals (useENSTokenAddress e input enabled) =
     q_data (decimalsQuery e (tok_address (useENSTokenAddress e input enabled)))"
  "tok_isValid (useENSTokenAddress e input enabled) =
     isValidToken e input (cls_isENSName (classifyInput e input))
       (tok_address (useENSTokenAddress e input enabled))
       (tok_isERC20Token (useENSTokenAddress e input enabled))"
  "tok_isLoading (useENSTokenAddress e input enabled) =
     (cls_isENSName (classifyInput e input) \<and>
      (q_isLoading (primaryAddressQuery e (classifyInput e input) enabled) \<or>
       q_isLoading (tokenTextRecordQuery e (classifyInput e input) enabled) \<or>
       q_isLoading (decimalsQuery e (tok_address (useENSTokenAddress e input enabled)))))"
  by (simp_all add: useENSTokenAddress_def Let_def)

lemma plain_fields:
  "tok_address (useENSTokenAddress_plain e input enabled) =
     resolvedAddress e input (cls_isENSName (classifyInput e input))
       (q_data (tokenTextRecordQuery e (classifyInput e input) enabled))
       (q_data (primaryAddressQuery e (classifyInput e input) enabled))"
  "tok_isENSName (useENSTokenAddress_plain e input enabled) =
     cls_isENSName (classifyInput e input)"
  "tok_ensName (useENSTokenAddress_plain e input enabled) =
     (if cls_isENSName (classifyInput e input) then cls_normalizedName (classifyInput e input)
      else None)"
  "tok_hasTokenRecord (useENSTokenAddress_plain e input enabled) =
     validAddress e (q_data (tokenTextRecordQuery e (classifyInput e input) enabled))"
  "tok_isValid (useENSTokenAddress_plain e input enabled) =
     isValidToken_plain e input (cls_isENSName (classifyInput e input))
       (tok_address (useENSTokenAddress_plain e input enabled))"
  "tok_isLoading (useENSTokenAddress_plain e input enabled) =
     (cls_isENSName (classifyInput e input) \<and>
      (q_isLoading (primaryAddressQuery e (classifyInput e input) enabled) \<or>
       q_isLoading (tokenTextRecordQuery e (classifyInput e input) enabled)))"
  by (simp_all add: useENSTokenAddress_plain_def Let_def classifyInput_plain_eq)

lemma resolvedAddress_ens:
  "resolvedAddress e input True t p =
     (if validAddress e t then t else if validAddress e p then p else None)"
  by (simp add: resolvedAddress_def)

lemma resolvedAddress_address_path:
  "validInputAddress e input \<Longrightarrow> resolvedAddress e input False t p = map_option trim input"
  by (simp add: resolvedAddress_def)

text \<open>
  Validity in the hook with the verification step: the input is not blank and, on the address
  path, the trimmed input is an address and the token check passed; on the name path, an address
  resolved and the token check passed. A failed \<open>decimals()\<close> read makes a resolved name
  invalid. The hook without the step asks for neither.
\<close>

lemma verified_isValid_iff:
  "tok_isValid (useENSTokenAddress e (Some s) enabled) =
     (trim s \<noteq> [] \<and>
      ((\<not> tok_isENSName (useENSTokenAddress e (Some s) enabled) \<and> isAddress e (trim s) \<and>
        tok_isERC20Token (useENSTokenAddress e (Some s) enabled)) \<or>
       (tok_isENSName (useENSTokenAddress e (Some s) enabled) \<and>
        tok_address (useENSTokenAddress e (Some s) enabled) \<noteq> None \<and>
        tok_isERC20Token (useENSTokenAddress e (Some s) enabled))))"
  by (auto simp add: tok_fields(7) tok_fields(2) isValidToken_def trim_Nil)

lemma verified_isValid_None: "\<not> tok_isValid (useENSTokenAddress e None enabled)"
  by (simp add: tok_fields(7) isValidToken_def)

lemma verification_failure_invalid:
  assumes "tok_isENSName (useENSTokenAddress e input enabled)"
    and "tok_address (useENSTokenAddress e input enabled) = Some a"
    and "q_data (readDecimals e (activeChainId e) a) = None \<or>
         q_isError (readDecimals e (activeChainId e) a)"
  shows "\<not> tok_isValid (useENSTokenAddress e input enabled)"
proof -
  have "\<not> isERC20Token (Some a) (decimalsQuery e (Some a))"
    using assms(3) by (auto simp: isERC20Token_def decimalsQuery_def useReadContract_def idle_sel)
  with assms(1,2) show ?thesis
    by (auto simp add: tok_fields(7) tok_fields(5) tok_fields(2)[symmetric] isValidToken_def
        split: option.splits)
qed

lemma plain_isValid_iff:
  "tok_isValid (useENSTokenAddress_plain e (Some s) enabled) =
     (trim s \<noteq> [] \<and>
      ((\<not> tok_isENSName (useENSTokenAddress_plain e (Some s) enabled) \<and> isAddress e (trim s)) \<or>
       (tok_isENSName (useENSTokenAddress_plain e (Some s) enabled) \<and>
        tok_address (useENSTokenAddress_plain e (Some s) enabled) \<noteq> None)))"
  by (auto simp add: plain_fields(5) plain_fields(2) isValidToken_plain_def trim_Nil)

section \<open>Facts about the name resolver\<close>

lemma resolve_address_pattern:
  "addressPattern s \<Longrightarrow> resolve_isAddress (Some s)"
  "addressPattern s \<Longrightarrow> \<not> resolve_isENSName (Some s)"
  by (simp_all add: resolve_isAddress_def resolve_isENSName_def addressPattern_nonempty)

lemma profile_None:
  "profile_normalizedName e None = (None, [])"
  "\<not> profile_shouldFetch e None enabled"
  "\<not> profile_textEnabled e None enabled"
  by (simp_all add: profile_normalizedName_def profile_shouldFetch_def profile_textEnabled_def
      Let_def)

lemma profile_isValid_data:
  "prof_isValid (useENSProfile e ensName enabled) =
     truthy (q_data (useEnsAddress e (fst (profile_normalizedName e ensName)) (profile_chainId e)
                       (profile_shouldFetch e ensName enabled)))"
  "prof_address (useENSProfile e ensName enabled) =
     q_data (useEnsAddress e (fst (profile_normalizedName e ensName)) (profile_chainId e)
               (profile_shouldFetch e ensName enabled))"
  "prof_avatar (useENSProfile e ensName enabled) =
     q_data (useEnsAvatar e (fst (profile_normalizedName e ensName)) (profile_chainId e)
               (profile_shouldFetch e ensName enabled))"
  by (simp_all add: useENSProfile_def Let_def)


text \<open>
  useResolveAddressOrENS decides \<open>isENSName\<close> from the dot alone: a dotted input whose
  normalization fails inside useENSProfile is still reported with \<open>isENSName = true\<close>, with
  no lookup issued and \<open>isValid = false\<close>.
\<close>

lemma profile_normalization_failure:
  assumes "includesChar s CHR ''.''" "ens_normalize e s = Inl err"
  shows "useENSProfile e (Some s) enabled =
           \<lparr>prof_address = None, prof_avatar = None, prof_isLoading = False,
            prof_socialRecords =
              \<lparr>twitter = None, github = None, discord = None, telegram = None, email = None,
               url = None\<rparr>,
            prof_isValid = False\<rparr>"
proof -
  from assms(1) have "s \<noteq> []" by (rule includesChar_nonempty)
  with assms have nn: "profile_normalizedName e (Some s) =
      (None, [ConsoleError ''Error normalizing ENS name:'' err])"
    by (simp add: profile_normalizedName_def)
  then show ?thesis
    by (simp add: useENSProfile_def Let_def useEnsAddress_def useEnsAvatar_def useEnsText_def
        idle_sel)
qed

lemma resolve_normalization_failure:
  assumes "includesChar s CHR ''.''" "ens_normalize e s = Inl err"
  shows "resolve_class (Some s) = ENSName"
    "useResolveAddressOrENS e (Some s) enabled =
       \<lparr>res_address = None, res_isENSName = True, res_ensName = Some s, res_avatar = None,
        res_socialRecords =
          Some \<lparr>twitter = None, github = None, discord = None, telegram = None, email = None,
                url = None\<rparr>,
        res_isLoading = False, res_isValid = False\<rparr>"
    "\<not> resolve_shouldFetch e (Some s) enabled"
    "\<not> resolve_textEnabled e (Some s) enabled"
proof -
  from assms(1) have ne: "s \<noteq> []" by (rule includesChar_nonempty)
  from assms(1) have "\<not> addressPattern s" using addressPattern_no_dot by blast
  with assms ne have ens: "resolve_isENSName (Some s)" "\<not> resolve_isAddress (Some s)"
    by (simp_all add: resolve_isENSName_def resolve_isAddress_def)
  from assms ne have nn: "profile_normalizedName e (Some s) =
      (None, [ConsoleError ''Error normalizing ENS name:'' err])"
    by (simp add: profile_normalizedName_def)
  then have sf: "\<not> profile_shouldFetch e (Some s) en" for en
    by (simp add: profile_shouldFetch_def)
  show "resolve_class (Some s) = ENSName"
    using ens by (simp add: resolve_class_def)
  show "useResolveAddressOrENS e (Some s) enabled =
       \<lparr>res_address = None, res_isENSName = True, res_ensName = Some s, res_avatar = None,
        res_socialRecords =
          Some \<lparr>twitter = None, github = None, discord = None, telegram = None, email = None,
                url = None\<rparr>,
        res_isLoading = False, res_isValid = False\<rparr>"
    using ens by (simp add: useResolveAddressOrENS_def Let_def profile_normalization_failure[OF assms])
  show "\<not> resolve_shouldFetch e (Some s) enabled"
    using ens sf by (simp add: resolve_shouldFetch_def)
  show "\<not> resolve_textEnabled e (Some s) enabled"
    using ens sf by (simp add: resolve_textEnabled_def profile_textEnabled_def Let_def)
qed

section \<open>The sample environment, evaluated\<close>

lemma sample_env_sel:
  "activeChainId sample_env = ETHEREUM"
  "isAddress sample_env = viem_isAddress sample_checksumAddress"
  "ens_normalize sample_env s =
     (if s = ''bad..eth'' then Inl (NormalizationError ''empty label'') else Inr (toLowerCase s))"
  "ensAddress sample_env chainId name =
     (if chainId = ETHEREUM \<and> (name = ''vitalik.eth'' \<or> name = ''dai.eth'')
      then settled (Some ownerAccount) else settled None)"
  "ensAvatar sample_env chainId name = settled None"
  "ensText sample_env chainId name key =
     (if chainId = ETHEREUM \<and> name = ''dai.eth'' \<and> key = ''token''
      then settled (Some tokenContract) else settled None)"
  "readDecimals sample_env chainId a =
     (if a = tokenContract then settled (Some 18)
      else \<lparr>q_data = None, q_isLoading = False, q_isError = True\<rparr>)"
  by (simp_all add: sample_env_def)

lemma sample_chain:
  "ensChainId sample_env = ETHEREUM" "profile_chainId sample_env = ETHEREUM"
  "isENSSupported sample_env"
  by (simp_all add: ensChainId_def profile_chainId_def isENSSupported_def sample_env_sel)

lemma settled_sel:
  "q_data (settled d) = d" "q_isLoading (settled d) = False" "q_isError (settled d) = False"
  by (simp_all add: settled_def)

lemma sample_addresses:
  "addressPattern tokenContract" "addressPattern ownerAccount" "addressPattern upperCaseAddress"
  "addressPattern lowerCaseAddress"
  by (simp_all add: addressPattern_def tokenContract_def ownerAccount_def upperCaseAddress_def
      lowerCaseAddress_def isHexDigit_def)

lemma lower_addresses:
  "toLowerCase tokenContract = ''0x6b175474e89094c44da98b954eedeac495271d0f''"
  "toLowerCase ownerAccount = ''0xd8da6bf26964af9d7eed9e03e53415d37aa96045''"
  "toLowerCase upperCaseAddress = ''0xabcdef0123456789abcdef0123456789abcdef01''"
  "toLowerCase lowerCaseAddress = lowerCaseAddress"
  by code_simp+

lemma sample_checksums:
  "sample_checksumAddress tokenContract = tokenContract"
  "sample_checksumAddress ownerAccount = ownerAccount"
  "sample_checksumAddress upperCaseAddress = ''0xabCDeF0123456789AbcdEf0123456789aBCDEF01''"
  by (simp_all add: sample_checksumAddress_def lower_addresses)

lemma viem_isAddress_pattern: "viem_isAddress c a \<Longrightarrow> addressPattern a"
  by (simp add: viem_isAddress_def split: if_splits)

lemma sample_isAddress:
  "isAddress sample_env tokenContract" "isAddress sample_env ownerAccount"
  "isAddress sample_env lowerCaseAddress" "\<not> isAddress sample_env upperCaseAddress"
  by (simp_all add: sample_env_sel viem_isAddress_def sample_addresses lower_addresses
      sample_checksums)
     (simp_all add: upperCaseAddress_def)

lemma sample_distinct:
  "tokenContract \<noteq> ownerAccount" "ownerAccount \<noteq> tokenContract"
  by (simp_all add: tokenContract_def ownerAccount_def)

lemma sample_validAddress:
  "validAddress sample_env (Some tokenContract)" "validAddress sample_env (Some ownerAccount)"
  "\<not> validAddress sample_env None"
  by (simp_all add: validAddress_def sample_isAddress sample_addresses addressPattern_nonempty)

lemma sample_trim:
  "trim ''vitalik.eth'' = ''vitalik.eth''" "trim ''dai.eth'' = ''dai.eth''"
  "trim ''bad..eth'' = ''bad..eth''" "trim '' Vitalik.ETH '' = ''Vitalik.ETH''"
  by (simp_all add: trim_def isWhiteSpace_def)

lemma sample_not_address:
  "\<not> addressPattern ''vitalik.eth''" "\<not> addressPattern ''dai.eth''"
  "\<not> addressPattern ''bad..eth''" "\<not> addressPattern ''Vitalik.ETH''"
  by (simp_all add: addressPattern_def)

lemma sample_names_not_address:
  "\<not> isAddress sample_env ''vitalik.eth''" "\<not> isAddress sample_env ''dai.eth''"
  "\<not> isAddress sample_env ''bad..eth''" "\<not> isAddress sample_env ''Vitalik.ETH''"
  by (simp_all add: sample_env_sel viem_isAddress_def sample_not_address)

lemma lower_samples:
  "toLowerCase ''fast'' = ''fast''"
  "toLowerCase ''FALSE'' = ''false''"
  "toLowerCase ''Vitalik.ETH'' = ''vitalik.eth''"
  "toLowerCase ''vitalik.eth'' = ''vitalik.eth''"
  "toLowerCase ''dai.eth'' = ''dai.eth''"
  by code_simp+

lemma sample_classify:
  "classifyInput sample_env (Some ''vitalik.eth'') =
     \<lparr>cls_isENSName = True, cls_normalizedName = Some ''vitalik.eth'', cls_console = []\<rparr>"
  "classifyInput sample_env (Some ''dai.eth'') =
     \<lparr>cls_isENSName = True, cls_normalizedName = Some ''dai.eth'', cls_console = []\<rparr>"
  by (rule classifyInput_name;
      simp add: sample_trim sample_env_sel(3) sample_names_not_address includesChar_def
        lower_samples)+

lemma sample_queries:
  "q_data (tokenTextRecordQuery sample_env (classifyInput sample_env (Some ''dai.eth'')) True) =
     Some tokenContract"
  "q_data (primaryAddressQuery sample_env (classifyInput sample_env (Some ''dai.eth'')) True) =
     Some ownerAccount"
  "q_data (tokenTextRecordQuery sample_env (classifyInput sample_env (Some ''vitalik.eth'')) True) =
     None"
  "q_data (primaryAddressQuery sample_env (classifyInput sample_env (Some ''vitalik.eth'')) True) =
     Some ownerAccount"
  by (simp_all add: sample_classify tokenTextRecordQuery_def primaryAddressQuery_def
      tokenLookupEnabled_def useEnsText_def useEnsAddress_def sample_chain sample_env_sel
      settled_sel)

lemma sample_trim_address: "trim (CHR '' '' # tokenContract) = tokenContract"
  using addressPattern_trim[OF sample_addresses(1)]
  by (simp add: trim_def isWhiteSpace_def tokenContract_def)

lemma token_class_address:
  "isAddress e (trim s) \<Longrightarrow> s \<noteq> [] \<Longrightarrow> token_class e (Some s) = Address"
  by (simp add: token_class_def classifyInput_address notENSName_def validInputAddress_def)

lemma token_class_pattern:
  "addressPattern s \<Longrightarrow> token_class e (Some s) = (if isAddress e s then Address else Invalid)"
  by (simp add: token_class_def validInputAddress_def classifyInput_no_dot notENSName_def
      addressPattern_trim addressPattern_no_dot addressPattern_nonempty)

lemma sample_token_class:
  "token_class sample_env (Some tokenContract) = Address"
  "token_class sample_env (Some ownerAccount) = Address"
  "token_class sample_env (Some lowerCaseAddress) = Address"
  "token_class sample_env (Some (CHR '' '' # tokenContract)) = Address"
  "token_class sample_env (Some upperCaseAddress) = Invalid"
  by (simp_all add: token_class_pattern sample_addresses sample_isAddress token_class_address
      sample_trim_address)

section \<open>The claims\<close>

text \<open>
  Claim C1, as stated: in the token-address resolver \<open>isValid\<close> is true exactly when the input
  is not empty and either the trimmed input is a valid address and the ERC-20 verification
  succeeded, or an address resolved for the name and the verification succeeded; a name that
  resolves to an address whose \<open>decimals()\<close> read fails is invalid. This fails for the hook of
  \<open>hooks/useENSTokenAddress.ts\<close>, which has no verification step: on \<open>vitalik.eth\<close>, which
  resolves to an account whose \<open>decimals()\<close> read fails, it reports \<open>isValid = true\<close>, where
  the hook with the step reports \<open>false\<close>.
\<close>

theorem plain_resolver_skips_verification:
  "tok_isENSName (useENSTokenAddress_plain sample_env (Some ''vitalik.eth'') True) \<and>
   tok_address (useENSTokenAddress_plain sample_env (Some ''vitalik.eth'') True) =
     Some ownerAccount \<and>
   q_isError (readDecimals sample_env (activeChainId sample_env) ownerAccount) \<and>
   tok_isValid (useENSTokenAddress_plain sample_env (Some ''vitalik.eth'') True) = True \<and>
   tok_address (useENSTokenAddress sample_env (Some ''vitalik.eth'') True) = Some ownerAccount \<and>
   tok_isERC20Token (useENSTokenAddress sample_env (Some ''vitalik.eth'') True) = False \<and>
   tok_isValid (useENSTokenAddress sample_env (Some ''vitalik.eth'') True) = False"
proof -
  have a: "resolvedAddress sample_env (Some ''vitalik.eth'') True None (Some ownerAccount) =
      Some ownerAccount"
    by (simp add: resolvedAddress_ens sample_validAddress)
  have b: "q_isError (readDecimals sample_env (activeChainId sample_env) ownerAccount)"
    by (simp add: sample_env_sel sample_distinct)
  have c: "\<not> isERC20Token (Some ownerAccount) (decimalsQuery sample_env (Some ownerAccount))"
    using b
    by (simp add: isERC20Token_def decimalsQuery_def useReadContract_def
        addressPattern_nonempty sample_addresses)
  have d: "cls_isENSName (classifyInput sample_env (Some ''vitalik.eth''))"
    by (simp add: sample_classify)
  show ?thesis
    using a b c d
    by (simp add: tok_fields plain_fields sample_queries isValidToken_def
        isValidToken_plain_def sample_trim)
qed

text \<open>
  Claim C1, amended. In the hook with the verification step, \<open>isValid\<close> is true exactly when
  the input is not blank and either (address path) the trimmed input is a valid address and the
  ERC-20 verification succeeded, or (name path) an address resolved and the verification
  succeeded; the verification succeeded when there is a candidate and its \<open>decimals()\<close> read
  returned a value without error, so a name that resolves to an address whose read fails is
  invalid. In the hook of \<open>hooks/useENSTokenAddress.ts\<close>, which has no verification step,
  \<open>isValid\<close> is true exactly when the input is not blank and either the trimmed input is a
  valid address or an address resolved for the name.
\<close>

theorem isValid_of_both_hooks:
  "tok_isValid (useENSTokenAddress e (Some s) enabled) =
     (trim s \<noteq> [] \<and>
      ((\<not> tok_isENSName (useENSTokenAddress e (Some s) enabled) \<and> isAddress e (trim s) \<and>
        tok_isERC20Token (useENSTokenAddress e (Some s) enabled)) \<or>
       (tok_isENSName (useENSTokenAddress e (Some s) enabled) \<and>
        tok_address (useENSTokenAddress e (Some s) enabled) \<noteq> None \<and>
        tok_isERC20Token (useENSTokenAddress e (Some s) enabled)))) \<and>
   tok_isValid (useENSTokenAddress e None enabled) = False \<and>
   tok_isERC20Token (useENSTokenAddress e input enabled) =
     (truthy (tok_address (useENSTokenAddress e input enabled)) \<and>
      q_data (decimalsQuery e (tok_address (useENSTokenAddress e input enabled))) \<noteq> None \<and>
      \<not> q_isError (decimalsQuery e (tok_address (useENSTokenAddress e input enabled)))) \<and>
   (tok_isENSName (useENSTokenAddress e input enabled) \<and>
    tok_address (useENSTokenAddress e input enabled) = Some a \<and>
    (q_data (readDecimals e (activeChainId e) a) = None \<or>
     q_isError (readDecimals e (activeChainId e) a)) \<longrightarrow>
      tok_isValid (useENSTokenAddress e input enabled) = False) \<and>
   tok_isValid (useENSTokenAddress_plain e (Some s) enabled) =
     (trim s \<noteq> [] \<and>
      ((\<not> tok_isENSName (useENSTokenAddress_plain e (Some s) enabled) \<and> isAddress e (trim s)) \<or>
       (tok_isENSName (useENSTokenAddress_plain e (Some s) enabled) \<and>
        tok_address (useENSTokenAddress_plain e (Some s) enabled) \<noteq> None))) \<and>
   tok_isValid (useENSTokenAddress_plain e None enabled) = False"
proof -
  have a: "tok_isValid (useENSTokenAddress e input enabled) = False"
    if "tok_isENSName (useENSTokenAddress e input enabled)"
      "tok_address (useENSTokenAddress e input enabled) = Some a"
      "q_data (readDecimals e (activeChainId e) a) = None \<or>
       q_isError (readDecimals e (activeChainId e) a)"
    using verification_failure_invalid[OF that] by simp
  have b: "tok_isValid (useENSTokenAddress_plain e None enabled) = False"
    by (simp add: plain_fields(5) isValidToken_plain_def)
  have c: "tok_isERC20Token (useENSTokenAddress e input enabled) =
     (truthy (tok_address (useENSTokenAddress e input enabled)) \<and>
      q_data (decimalsQuery e (tok_address (useENSTokenAddress e input enabled))) \<noteq> None \<and>
      \<not> q_isError (decimalsQuery e (tok_address (useENSTokenAddress e input enabled))))"
    by (simp add: tok_fields(5) isERC20Token_def)
  from verified_isValid_iff[of e s enabled] verified_isValid_None[of e enabled]
    plain_isValid_iff[of e s enabled] a b c
  show ?thesis by blast
qed

theorem isValid_of_both_hooks_witness:
  "tok_isENSName (useENSTokenAddress sample_env (Some ''vitalik.eth'') True) \<and>
   tok_address (useENSTokenAddress sample_env (Some ''vitalik.eth'') True) = Some ownerAccount \<and>
   q_isError (readDecimals sample_env (activeChainId sample_env) ownerAccount) \<and>
   tok_isValid (useENSTokenAddress sample_env (Some ''vitalik.eth'') True) = False \<and>
   tok_address (useENSTokenAddress sample_env (Some ''dai.eth'') True) = Some tokenContract \<and>
   tok_isERC20Token (useENSTokenAddress sample_env (Some ''dai.eth'') True) \<and>
   tok_isValid (useENSTokenAddress sample_env (Some ''dai.eth'') True) \<and>
   tok_isValid (useENSTokenAddress_plain sample_env (Some ''dai.eth'') True)"
proof -
  have ens: "cls_isENSName (classifyInput sample_env (Some ''vitalik.eth''))"
    "cls_isENSName (classifyInput sample_env (Some ''dai.eth''))"
    by (simp_all add: sample_classify)
  have adr: "tok_address (useENSTokenAddress sample_env (Some ''vitalik.eth'') True) =
      Some ownerAccount"
    "tok_address (useENSTokenAddress sample_env (Some ''dai.eth'') True) = Some tokenContract"
    "tok_address (useENSTokenAddress_plain sample_env (Some ''dai.eth'') True) =
      Some tokenContract"
    by (simp_all add: tok_fields(1) plain_fields(1) ens sample_queries resolvedAddress_ens
        sample_validAddress)
  have err: "q_isError (readDecimals sample_env (activeChainId sample_env) ownerAccount)"
    by (simp add: sample_env_sel sample_distinct)
  have erc: "tok_isERC20Token (useENSTokenAddress sample_env (Some ''dai.eth'') True)"
    by (simp add: tok_fields(5) adr isERC20Token_def decimalsQuery_def useReadContract_def
        sample_env_sel settled_sel addressPattern_nonempty sample_addresses)
  note r = isValid_of_both_hooks[of sample_env _ True]
  from r[of "''vitalik.eth''" "Some ''vitalik.eth''" ownerAccount]
    r[of "''dai.eth''" "Some ''dai.eth''" tokenContract]
    ens adr err erc
  show ?thesis
    by (simp add: tok_fields(2) plain_fields(2) sample_trim decimalsQuery_def
        useReadContract_def addressPattern_nonempty sample_addresses sample_env_sel
        settled_sel sample_distinct)
qed

text \<open>
  Claim C2. For an input on the name path, the candidate address is the \<open>token\<close> text
  record when that record is a valid address, whatever the primary address is; otherwise the
  primary address when it is a valid address; otherwise absent. Both hooks.
\<close>

theorem token_record_precedence:
  assumes "cls_isENSName (classifyInput e input)"
    and "q_data (tokenTextRecordQuery e (classifyInput e input) enabled) = t"
    and "q_data (primaryAddressQuery e (classifyInput e input) enabled) = p"
  shows "tok_address (useENSTokenAddress e input enabled) =
           (if validAddress e t then t else if validAddress e p then p else None) \<and>
         tok_address (useENSTokenAddress_plain e input enabled) =
           (if validAddress e t then t else if validAddress e p then p else None)"
  using assms by (simp add: tok_fields plain_fields resolvedAddress_ens)

theorem token_record_precedence_witness:
  "cls_isENSName (classifyInput sample_env (Some ''dai.eth'')) \<and>
   q_data (tokenTextRecordQuery sample_env (classifyInput sample_env (Some ''dai.eth'')) True) =
     Some tokenContract \<and>
   q_data (primaryAddressQuery sample_env (classifyInput sample_env (Some ''dai.eth'')) True) =
     Some ownerAccount \<and>
   tokenContract \<noteq> ownerAccount \<and>
   validAddress sample_env (Some ownerAccount) \<and>
   tok_address (useENSTokenAddress sample_env (Some ''dai.eth'') True) = Some tokenContract \<and>
   tok_address (useENSTokenAddress_plain sample_env (Some ''dai.eth'') True) = Some tokenContract \<and>
   tok_address (useENSTokenAddress sample_env (Some ''vitalik.eth'') True) = Some ownerAccount"
proof -
  have a: "cls_isENSName (classifyInput sample_env (Some ''dai.eth''))"
    and b: "cls_isENSName (classifyInput sample_env (Some ''vitalik.eth''))"
    by (simp_all add: sample_classify)
  from token_record_precedence[OF a sample_queries(1) sample_queries(2)]
    token_record_precedence[OF b sample_queries(3) sample_queries(4)]
    a sample_queries sample_distinct sample_validAddress
  show ?thesis by simp
qed

text \<open>
  Claim C3, as stated: every string that matches the address pattern is classified as an
  address, whatever the case of its hexadecimal digits. This fails for the token resolver, whose
  address test is the library's \<open>isAddress\<close>: the all-upper-case address of the spec's example
  matches the pattern and is not its checksum spelling, so the token resolver classifies it as
  invalid and resolves no address, where useResolveAddressOrENS classifies it as an address.
\<close>

theorem upper_case_address_not_a_token_address:
  "addressPattern upperCaseAddress \<and>
   isAddress sample_env = viem_isAddress sample_checksumAddress \<and>
   sample_checksumAddress upperCaseAddress = ''0xabCDeF0123456789AbcdEf0123456789aBCDEF01'' \<and>
   resolve_class (Some upperCaseAddress) = Address \<and>
   token_class sample_env (Some upperCaseAddress) = Invalid \<and>
   tok_address (useENSTokenAddress sample_env (Some upperCaseAddress) True) = None"
proof -
  have a: "\<not> validInputAddress sample_env (Some upperCaseAddress)"
    by (simp add: validInputAddress_def addressPattern_trim sample_addresses sample_isAddress)
  have b: "classifyInput sample_env (Some upperCaseAddress) = notENSName"
    by (simp add: classifyInput_no_dot addressPattern_trim addressPattern_no_dot
        sample_addresses)
  have c: "tok_address (useENSTokenAddress sample_env (Some upperCaseAddress) True) = None"
    using a
    by (simp add: tok_fields(1) b notENSName_def not_ens_queries idle_sel resolvedAddress_def
        validAddress_def)
  show ?thesis
    using c
    by (simp add: sample_addresses sample_env_sel sample_checksums sample_token_class
        resolve_class_def resolve_address_pattern)
qed

text \<open>
  Claim C3, amended. A string that matches the address pattern holds no dot and is never
  classified as a name by either hook. useResolveAddressOrENS classifies it as an address
  whatever the case of its digits. The token resolver classifies it as an address exactly when
  the library's \<open>isAddress\<close> accepts it, and as invalid otherwise; with the library's strict
  test that is exactly when it has no upper-case letter or is its checksum spelling. In both
  hooks the address test comes before the dot test: an input that passes it is on the address
  path whether or not it holds a dot.
\<close>

theorem address_pattern_classification:
  "(addressPattern s \<longrightarrow>
      resolve_class (Some s) = Address \<and> \<not> resolve_isENSName (Some s) \<and>
      \<not> includesChar s CHR ''.'' \<and>
      \<not> cls_isENSName (classifyInput e (Some s)) \<and>
      cls_normalizedName (classifyInput e (Some s)) = None \<and>
      token_class e (Some s) = (if isAddress e s then Address else Invalid)) \<and>
   (addressPattern s \<and> isAddress e = viem_isAddress checksumAddress \<longrightarrow>
      (token_class e (Some s) = Address) = (toLowerCase s = s \<or> checksumAddress s = s)) \<and>
   (resolve_isAddress input \<longrightarrow> resolve_class input = Address) \<and>
   (isAddress e (trim t) \<and> t \<noteq> [] \<longrightarrow> token_class e (Some t) = Address)"
proof -
  have a: "classifyInput e (Some s) = notENSName" if "addressPattern s"
    using that by (simp add: classifyInput_no_dot addressPattern_trim addressPattern_no_dot)
  have b: "(token_class e (Some s) = Address) = (toLowerCase s = s \<or> checksumAddress s = s)"
    if "addressPattern s" "isAddress e = viem_isAddress checksumAddress"
    using that by (simp add: token_class_pattern viem_isAddress_def)
  show ?thesis
    using a b
    by (auto simp add: resolve_class_def resolve_address_pattern addressPattern_no_dot
        notENSName_def token_class_pattern token_class_address)
qed

theorem address_pattern_classification_witness:
  "addressPattern lowerCaseAddress \<and>
   resolve_class (Some lowerCaseAddress) = Address \<and>
   token_class sample_env (Some lowerCaseAddress) = Address \<and>
   addressPattern upperCaseAddress \<and>
   resolve_isAddress (Some upperCaseAddress) \<and>
   resolve_class (Some upperCaseAddress) = Address \<and>
   \<not> cls_isENSName (classifyInput sample_env (Some upperCaseAddress)) \<and>
   token_class sample_env (Some upperCaseAddress) = Invalid \<and>
   isAddress sample_env (trim (CHR '' '' # tokenContract)) \<and>
   token_class sample_env (Some (CHR '' '' # tokenContract)) = Address"
proof -
  have a: "isAddress sample_env = viem_isAddress sample_checksumAddress"
    by (rule sample_env_sel)
  have c: "resolve_isAddress (Some upperCaseAddress)"
    using sample_addresses(3) by (rule resolve_address_pattern)
  have d: "upperCaseAddress \<noteq> ''0xabCDeF0123456789AbcdEf0123456789aBCDEF01''"
    "upperCaseAddress \<noteq> ''0xabcdef0123456789abcdef0123456789abcdef01''"
    by (simp_all add: upperCaseAddress_def)
  note r = address_pattern_classification[of _ sample_env sample_checksumAddress _
      "CHR '' '' # tokenContract"]
  from r[of lowerCaseAddress "Some upperCaseAddress"]
    r[of upperCaseAddress "Some upperCaseAddress"]
    a c d sample_addresses sample_isAddress lower_addresses sample_checksums
    sample_trim_address
  show ?thesis by simp
qed



text \<open>
  Claim C5. The slippage field is present, holding the record's own text, exactly when the
  record is non-empty and \<open>parseFloat\<close> gives a finite number in [0, 50]; otherwise it is
  absent. The slippage record has no effect on the other three fields. With \<open>parseFloat\<close>
  answering 0.5, 75 and NaN on the texts \<open>0.5\<close>, \<open>75\<close> and \<open>abc\<close>, the first is kept
  and the other two are dropped.
\<close>

theorem slippage_decoding:
  "slippage (preferences parseFloat st tt et gt) =
     (if (\<exists>txt. st = Some txt \<and> txt \<noteq> [] \<and>
               (\<exists>x. parseFloat txt = Finite x \<and> 0 \<le> x \<and> x \<le> 50))
      then st else None) \<and>
   theme (preferences parseFloat st tt et gt) = theme (preferences parseFloat' st' tt et gt) \<and>
   expertMode (preferences parseFloat st tt et gt) =
     expertMode (preferences parseFloat' st' tt et gt) \<and>
   gasPriority (preferences parseFloat st tt et gt) =
     gasPriority (preferences parseFloat' st' tt et gt) \<and>
   (parseFloat ''0.5'' = Finite (1 / 2) \<longrightarrow>
      slippage (preferences parseFloat (Some ''0.5'') tt et gt) = Some ''0.5'') \<and>
   (parseFloat ''75'' = Finite 75 \<longrightarrow>
      slippage (preferences parseFloat (Some ''75'') tt et gt) = None) \<and>
   (parseFloat ''abc'' = NaN \<longrightarrow>
      slippage (preferences parseFloat (Some ''abc'') tt et gt) = None)"
proof -
  have a: "slippage (preferences parseFloat (Some ''0.5'') tt et gt) = Some ''0.5''"
    if "parseFloat ''0.5'' = Finite (1 / 2)"
  proof -
    have "\<exists>x. parseFloat ''0.5'' = Finite x \<and> 0 \<le> x \<and> x \<le> 50"
      using that by (intro exI[of _ "1 / 2"]) simp
    then show ?thesis by (simp add: slippage_preferences)
  qed
  have b: "slippage (preferences parseFloat (Some ''75'') tt et gt) = None"
    if "parseFloat ''75'' = Finite 75"
    using that by (simp add: slippage_preferences)
  have c: "slippage (preferences parseFloat (Some ''abc'') tt et gt) = None"
    if "parseFloat ''abc'' = NaN"
    using that by (simp add: slippage_preferences)
  show ?thesis
    using a b c
    by (simp add: slippage_preferences theme_preferences expertMode_preferences
        gasPriority_preferences)
qed

theorem slippage_decoding_witness:
  "slippage (preferences sample_parseFloat (Some ''0.5'') (Some ''dark'') None None) = Some ''0.5'' \<and>
   slippage (preferences sample_parseFloat (Some ''75'') (Some ''dark'') None None) = None \<and>
   slippage (preferences sample_parseFloat (Some ''abc'') (Some ''dark'') None None) = None \<and>
   theme (preferences sample_parseFloat (Some ''abc'') (Some ''dark'') None None) = Some ''dark''"
proof -
  have h: "sample_parseFloat ''0.5'' = Finite (1 / 2)" "sample_parseFloat ''75'' = Finite 75"
    "sample_parseFloat ''abc'' = NaN"
    by (simp_all add: sample_parseFloat_def)
  have t: "theme (preferences sample_parseFloat None (Some ''dark'') None None) = Some ''dark''"
    by (simp add: theme_preferences)
  from slippage_decoding[of sample_parseFloat "Some ''abc''" "Some ''dark''" None None
      sample_parseFloat None] h t
  show ?thesis by simp
qed

text \<open>
  Claim C6, as stated: a dotted input whose normalization fails is classified as invalid, not
  as a name. This fails for useResolveAddressOrENS, which decides \<open>isENSName\<close> from the dot
  alone and leaves normalization to the useENSProfile it calls: on \<open>bad..eth\<close>, which the
  normalizer rejects, it reports \<open>isENSName = true\<close> with the raw input as \<open>ensName\<close>.
\<close>

theorem dotted_input_stays_a_name:
  "includesChar ''bad..eth'' CHR ''.'' \<and>
   ens_normalize sample_env ''bad..eth'' = Inl (NormalizationError ''empty label'') \<and>
   resolve_class (Some ''bad..eth'') = ENSName \<and>
   res_isENSName (useResolveAddressOrENS sample_env (Some ''bad..eth'') True) \<and>
   res_ensName (useResolveAddressOrENS sample_env (Some ''bad..eth'') True) = Some ''bad..eth''"
proof -
  have h: "includesChar ''bad..eth'' CHR ''.''"
    "ens_normalize sample_env ''bad..eth'' = Inl (NormalizationError ''empty label'')"
    by (simp_all add: includesChar_def sample_env_sel)
  from resolve_normalization_failure(1)[OF h]
    resolve_normalization_failure(2)[OF h, where enabled = True] h
  show ?thesis by simp
qed

text \<open>
  Claim C6, amended. For a dotted input whose normalization throws, the throw ends in the
  \<open>catch\<close> branch of the hook that normalizes, is logged there, and no lookup is enabled.
  useENSProfile ends with no normalized name, one \<open>console.error\<close> call and an invalid, empty
  result. The token resolver classifies the input as invalid: its memo returns
  \<open>isENSName = false\<close> with one \<open>console.warn\<close> call, both lookups stay idle and the result
  has no name, no address and is invalid. useResolveAddressOrENS, which classifies by the dot
  before any normalization, still reports \<open>isENSName = true\<close> and the raw input as
  \<open>ensName\<close>, with no address, \<open>isLoading = false\<close> and \<open>isValid = false\<close>.
\<close>

theorem normalization_failure_absorbed:
  "(includesChar s CHR ''.'' \<and> ens_normalize e s = Inl err \<longrightarrow>
      profile_normalizedName e (Some s) =
        (None, [ConsoleError ''Error normalizing ENS name:'' err]) \<and>
      \<not> profile_shouldFetch e (Some s) enabled \<and>
      \<not> profile_textEnabled e (Some s) enabled \<and>
      prof_address (useENSProfile e (Some s) enabled) = None \<and>
      \<not> prof_isValid (useENSProfile e (Some s) enabled)) \<and>
   (includesChar s CHR ''.'' \<and> ens_normalize e s = Inl err \<longrightarrow>
      resolve_class (Some s) = ENSName \<and>
      useResolveAddressOrENS e (Some s) enabled =
        \<lparr>res_address = None, res_isENSName = True, res_ensName = Some s, res_avatar = None,
         res_socialRecords =
           Some \<lparr>twitter = None, github = None, discord = None, telegram = None, email = None,
                 url = None\<rparr>,
         res_isLoading = False, res_isValid = False\<rparr> \<and>
      \<not> resolve_shouldFetch e (Some s) enabled \<and>
      \<not> resolve_textEnabled e (Some s) enabled) \<and>
   (includesChar s CHR ''.'' \<and> \<not> isAddress e (trim s) \<and> ens_normalize e (trim s) = Inl err \<longrightarrow>
      classifyInput e (Some s) =
        \<lparr>cls_isENSName = False, cls_normalizedName = None,
         cls_console = [ConsoleWarn ''Failed to normalize ENS name:'' err]\<rparr> \<and>
      token_class e (Some s) = Invalid \<and>
      \<not> tokenLookupEnabled (classifyInput e (Some s)) enabled \<and>
      primaryAddressQuery e (classifyInput e (Some s)) enabled = idle \<and>
      tokenTextRecordQuery e (classifyInput e (Some s)) enabled = idle \<and>
      \<not> tok_isENSName (useENSTokenAddress e (Some s) enabled) \<and>
      tok_ensName (useENSTokenAddress e (Some s) enabled) = None \<and>
      tok_address (useENSTokenAddress e (Some s) enabled) = None \<and>
      \<not> tok_isValid (useENSTokenAddress e (Some s) enabled))"
proof -
  have a: "profile_normalizedName e (Some s) =
        (None, [ConsoleError ''Error normalizing ENS name:'' err])"
    if "includesChar s CHR ''.''" "ens_normalize e s = Inl err"
    using that includesChar_nonempty[OF that(1)] by (simp add: profile_normalizedName_def)
  have b: "classifyInput e (Some s) =
        \<lparr>cls_isENSName = False, cls_normalizedName = None,
         cls_console = [ConsoleWarn ''Failed to normalize ENS name:'' err]\<rparr>"
    if "includesChar s CHR ''.''" "\<not> isAddress e (trim s)" "ens_normalize e (trim s) = Inl err"
  proof -
    from that(1) have d: "includesChar (trim s) CHR ''.''"
      by (rule trim_keeps) (rule dot_not_space)
    then have "trim s \<noteq> []" by (rule includesChar_nonempty)
    with that d show ?thesis by (simp add: classifyInput_failure)
  qed
  have c: "token_class e (Some s) = Invalid \<and>
      \<not> tokenLookupEnabled (classifyInput e (Some s)) enabled \<and>
      primaryAddressQuery e (classifyInput e (Some s)) enabled = idle \<and>
      tokenTextRecordQuery e (classifyInput e (Some s)) enabled = idle \<and>
      \<not> tok_isENSName (useENSTokenAddress e (Some s) enabled) \<and>
      tok_ensName (useENSTokenAddress e (Some s) enabled) = None \<and>
      tok_address (useENSTokenAddress e (Some s) enabled) = None \<and>
      \<not> tok_isValid (useENSTokenAddress e (Some s) enabled)"
    if "includesChar s CHR ''.''" "\<not> isAddress e (trim s)" "ens_normalize e (trim s) = Inl err"
    using that(2) b[OF that]
    by (simp add: token_class_def validInputAddress_def tokenLookupEnabled_def tok_fields
        not_ens_queries idle_sel resolvedAddress_def validAddress_def isValidToken_def)
  have d: "resolve_class (Some s) = ENSName \<and>
      useResolveAddressOrENS e (Some s) enabled =
        \<lparr>res_address = None, res_isENSName = True, res_ensName = Some s, res_avatar = None,
         res_socialRecords =
           Some \<lparr>twitter = None, github = None, discord = None, telegram = None, email = None,
                 url = None\<rparr>,
         res_isLoading = False, res_isValid = False\<rparr> \<and>
      \<not> resolve_shouldFetch e (Some s) enabled \<and>
      \<not> resolve_textEnabled e (Some s) enabled"
    if "includesChar s CHR ''.''" "ens_normalize e s = Inl err"
    using resolve_normalization_failure[OF that] by simp
  have p: "\<not> profile_shouldFetch e (Some s) enabled \<and>
      \<not> profile_textEnabled e (Some s) enabled \<and>
      prof_address (useENSProfile e (Some s) enabled) = None \<and>
      \<not> prof_isValid (useENSProfile e (Some s) enabled)"
    if "includesChar s CHR ''.''" "ens_normalize e s = Inl err"
    using a[OF that]
    by (simp add: profile_shouldFetch_def profile_textEnabled_def profile_isValid_data
        useEnsAddress_def idle_sel Let_def)
  show ?thesis
    using a b c d p by blast
qed

theorem normalization_failure_absorbed_witness:
  "includesChar ''bad..eth'' CHR ''.'' \<and>
   ens_normalize sample_env ''bad..eth'' = Inl (NormalizationError ''empty label'') \<and>
   profile_normalizedName sample_env (Some ''bad..eth'') =
     (None, [ConsoleError ''Error normalizing ENS name:'' (NormalizationError ''empty label'')]) \<and>
   \<not> profile_shouldFetch sample_env (Some ''bad..eth'') True \<and>
   res_isENSName (useResolveAddressOrENS sample_env (Some ''bad..eth'') True) \<and>
   \<not> res_isValid (useResolveAddressOrENS sample_env (Some ''bad..eth'') True) \<and>
   \<not> resolve_shouldFetch sample_env (Some ''bad..eth'') True \<and>
   classifyInput sample_env (Some ''bad..eth'') =
     \<lparr>cls_isENSName = False, cls_normalizedName = None,
      cls_console =
        [ConsoleWarn ''Failed to normalize ENS name:'' (NormalizationError ''empty label'')]\<rparr> \<and>
   token_class sample_env (Some ''bad..eth'') = Invalid \<and>
   \<not> tokenLookupEnabled (classifyInput sample_env (Some ''bad..eth'')) True \<and>
   \<not> tok_isValid (useENSTokenAddress sample_env (Some ''bad..eth'') True)"
proof -
  have h: "includesChar ''bad..eth'' CHR ''.''"
    "ens_normalize sample_env ''bad..eth'' = Inl (NormalizationError ''empty label'')"
    "\<not> isAddress sample_env (trim ''bad..eth'')"
    "ens_normalize sample_env (trim ''bad..eth'') = Inl (NormalizationError ''empty label'')"
    by (simp_all add: includesChar_def sample_env_sel(3) sample_trim sample_names_not_address)
  from normalization_failure_absorbed[of "''bad..eth''" sample_env
      "NormalizationError ''empty label''" True] h
  show ?thesis by (simp add: tokenLookupEnabled_def)
qed

text \<open>
  Claim C7. \<open>hasAnyPreferences\<close> holds exactly when one of the four fields of the decoded
  object is present, that is, when one of the four records passes its validation; with all four
  records absent it is false.
\<close>

theorem hasAnyPreferences_iff:
  "hasAnyPreferences (preferences parseFloat st tt et gt) =
     (present (slippage (preferences parseFloat st tt et gt)) \<or>
      present (theme (preferences parseFloat st tt et gt)) \<or>
      present (expertMode (preferences parseFloat st tt et gt)) \<or>
      present (gasPriority (preferences parseFloat st tt et gt))) \<and>
   hasAnyPreferences (preferences parseFloat st tt et gt) =
     ((\<exists>txt. st = Some txt \<and> txt \<noteq> [] \<and>
             (\<exists>x. parseFloat txt = Finite x \<and> 0 \<le> x \<and> x \<le> 50)) \<or>
      (tt = Some ''dark'' \<or> tt = Some ''light'') \<or>
      truthy et \<or>
      (\<exists>txt. gt = Some txt \<and>
             (toLowerCase txt = ''low'' \<or> toLowerCase txt = ''medium'' \<or>
              toLowerCase txt = ''high''))) \<and>
   hasAnyPreferences (preferences parseFloat None None None None) = False"
proof -
  have a: "present (slippage (preferences parseFloat st tt et gt)) =
      (\<exists>txt. st = Some txt \<and> txt \<noteq> [] \<and> (\<exists>x. parseFloat txt = Finite x \<and> 0 \<le> x \<and> x \<le> 50))"
    by (auto simp add: slippage_preferences)
  have b: "present (theme (preferences parseFloat st tt et gt)) =
      (tt = Some ''dark'' \<or> tt = Some ''light'')"
    by (auto simp add: theme_preferences)
  have c: "present (expertMode (preferences parseFloat st tt et gt)) = truthy et"
    by (cases et) (simp_all add: expertMode_preferences)
  have d: "present (gasPriority (preferences parseFloat st tt et gt)) =
      (\<exists>txt. gt = Some txt \<and>
             (toLowerCase txt = ''low'' \<or> toLowerCase txt = ''medium'' \<or>
              toLowerCase txt = ''high''))"
    by (cases gt) (simp_all add: gasPriority_preferences)
  have e: "hasAnyPreferences (preferences parseFloat None None None None) = False"
    by (simp add: hasAny_present slippage_preferences theme_preferences expertMode_preferences
        gasPriority_preferences)
  show ?thesis
    unfolding hasAny_present a b c d using e unfolding hasAny_present by simp
qed

theorem hasAnyPreferences_iff_witness:
  "hasAnyPreferences (preferences sample_parseFloat (Some ''75'') (Some ''Dark'') None (Some ''fast'')) = False \<and>
   hasAnyPreferences (preferences sample_parseFloat None None (Some ''FALSE'') None) = True \<and>
   expertMode (preferences sample_parseFloat None None (Some ''FALSE'') None) = Some False"
proof -
  have h: "sample_parseFloat ''75'' = Finite 75" by (simp add: sample_parseFloat_def)
  have x: "expertMode (preferences sample_parseFloat None None (Some ''FALSE'') None) = Some False"
    by (simp add: expertMode_preferences lower_samples)
  note r = hasAnyPreferences_iff[THEN conjunct2, THEN conjunct1]
  from r[of sample_parseFloat "Some ''75''" "Some ''Dark''" None "Some ''fast''"]
    r[of sample_parseFloat None None "Some ''FALSE''" None] h x
  show ?thesis by (simp add: lower_samples)
qed

text \<open>
  Claim C8, as stated: an input classified as an address yields \<open>isValid = true\<close> with no
  external lookup. This fails for the token resolver: on the address path it issues the
  \<open>decimals()\<close> read for the candidate and reports \<open>isValid\<close> as the outcome of that
  verification. The account of the samples is a valid address and no token: its read fails and
  the result is invalid.
\<close>

theorem address_path_awaits_verification:
  "token_class sample_env (Some ownerAccount) = Address \<and>
   tok_address (useENSTokenAddress sample_env (Some ownerAccount) True) = Some ownerAccount \<and>
   tok_isENSName (useENSTokenAddress sample_env (Some ownerAccount) True) = False \<and>
   q_isError (decimalsQuery sample_env
     (tok_address (useENSTokenAddress sample_env (Some ownerAccount) True))) \<and>
   tok_isValid (useENSTokenAddress sample_env (Some ownerAccount) True) = False"
proof -
  have a: "classifyInput sample_env (Some ownerAccount) = notENSName"
    by (simp add: classifyInput_address addressPattern_trim sample_addresses sample_isAddress)
  have b: "tok_address (useENSTokenAddress sample_env (Some ownerAccount) True) =
      Some ownerAccount"
    by (simp add: tok_fields(1) a notENSName_def resolvedAddress_address_path
        validInputAddress_def addressPattern_trim addressPattern_nonempty sample_addresses
        sample_isAddress)
  have c: "q_isError (decimalsQuery sample_env (Some ownerAccount))"
    by (simp add: decimalsQuery_def useReadContract_def sample_env_sel sample_distinct
        addressPattern_nonempty sample_addresses)
  show ?thesis
    using c
    by (simp add: sample_token_class b tok_fields(2,5,7) a notENSName_def isValidToken_def
        isERC20Token_def)
qed

text \<open>
  Claim C8, amended. An input classified as an address needs no name resolution.
  useResolveAddressOrENS returns the input as the address with \<open>isENSName = false\<close>,
  \<open>isLoading = false\<close> and \<open>isValid = true\<close>, and enables none of its lookups. The token
  resolver returns the trimmed input as the candidate with \<open>isENSName = false\<close> and
  \<open>isLoading = false\<close>, and its name and text-record lookups are not enabled, in every
  environment; it does issue the \<open>decimals()\<close> read for the candidate, and its \<open>isValid\<close> is
  the outcome of that verification: true exactly when the read returned a value without error.
\<close>

theorem address_is_immediate:
  "(addressPattern s \<longrightarrow>
      useResolveAddressOrENS e (Some s) enabled =
        \<lparr>res_address = Some s, res_isENSName = False, res_ensName = None, res_avatar = None,
         res_socialRecords = None, res_isLoading = False, res_isValid = True\<rparr> \<and>
      \<not> resolve_shouldFetch e (Some s) enabled \<and>
      \<not> resolve_textEnabled e (Some s) enabled) \<and>
   (token_class e (Some t) = Address \<longrightarrow>
      tok_address (useENSTokenAddress e (Some t) enabled) = Some (trim t) \<and>
      \<not> tok_isENSName (useENSTokenAddress e (Some t) enabled) \<and>
      \<not> tok_isLoading (useENSTokenAddress e (Some t) enabled) \<and>
      \<not> tokenLookupEnabled (classifyInput e (Some t)) enabled \<and>
      primaryAddressQuery e (classifyInput e (Some t)) enabled = idle \<and>
      tokenTextRecordQuery e (classifyInput e (Some t)) enabled = idle \<and>
      tok_isValid (useENSTokenAddress e (Some t) enabled) =
        tok_isERC20Token (useENSTokenAddress e (Some t) enabled) \<and>
      tok_isERC20Token (useENSTokenAddress e (Some t) enabled) =
        (trim t \<noteq> [] \<and> q_data (readDecimals e (activeChainId e) (trim t)) \<noteq> None \<and>
         \<not> q_isError (readDecimals e (activeChainId e) (trim t))) \<and>
      tok_decimals (useENSTokenAddress e (Some t) enabled) =
        (if trim t = [] then None else q_data (readDecimals e (activeChainId e) (trim t))))"
proof -
  have a: "\<not> cls_isENSName (classifyInput e (Some t)) \<and> t \<noteq> [] \<and> isAddress e (trim t)"
    if "token_class e (Some t) = Address"
    using that by (simp add: token_class_def validInputAddress_def split: if_splits)
  have b: "tok_address (useENSTokenAddress e (Some t) enabled) = Some (trim t)"
    if "token_class e (Some t) = Address"
    using a[OF that]
    by (simp add: tok_fields(1) resolvedAddress_address_path validInputAddress_def)
  have c: "decimalsQuery e (Some (trim t)) =
      (if trim t = [] then idle else readDecimals e (activeChainId e) (trim t))"
    by (simp add: decimalsQuery_def useReadContract_def)
  have d: "tok_isValid (useENSTokenAddress e (Some t) enabled) =
        tok_isERC20Token (useENSTokenAddress e (Some t) enabled) \<and>
      tok_isERC20Token (useENSTokenAddress e (Some t) enabled) =
        (trim t \<noteq> [] \<and> q_data (readDecimals e (activeChainId e) (trim t)) \<noteq> None \<and>
         \<not> q_isError (readDecimals e (activeChainId e) (trim t))) \<and>
      tok_decimals (useENSTokenAddress e (Some t) enabled) =
        (if trim t = [] then None else q_data (readDecimals e (activeChainId e) (trim t)))"
    if "token_class e (Some t) = Address"
    using a[OF that]
    by (auto simp add: tok_fields(5,6,7) b[OF that] c isValidToken_def isERC20Token_def
        idle_sel)
  have f: "\<not> tok_isENSName (useENSTokenAddress e (Some t) enabled) \<and>
      \<not> tok_isLoading (useENSTokenAddress e (Some t) enabled) \<and>
      \<not> tokenLookupEnabled (classifyInput e (Some t)) enabled \<and>
      primaryAddressQuery e (classifyInput e (Some t)) enabled = idle \<and>
      tokenTextRecordQuery e (classifyInput e (Some t)) enabled = idle"
    if "token_class e (Some t) = Address"
    using a[OF that]
    by (simp add: tok_fields(2,8) not_ens_queries tokenLookupEnabled_def)
  have g: "useResolveAddressOrENS e (Some s) enabled =
        \<lparr>res_address = Some s, res_isENSName = False, res_ensName = None, res_avatar = None,
         res_socialRecords = None, res_isLoading = False, res_isValid = True\<rparr> \<and>
      \<not> resolve_shouldFetch e (Some s) enabled \<and>
      \<not> resolve_textEnabled e (Some s) enabled"
    if "addressPattern s"
    using that
    by (simp add: useResolveAddressOrENS_def resolve_address_pattern Let_def
        resolve_shouldFetch_def resolve_textEnabled_def profile_None)
  show ?thesis
    using b d f g by blast
qed

theorem address_is_immediate_witness:
  "addressPattern upperCaseAddress \<and>
   useResolveAddressOrENS sample_env (Some upperCaseAddress) True =
     \<lparr>res_address = Some upperCaseAddress, res_isENSName = False, res_ensName = None,
      res_avatar = None, res_socialRecords = None, res_isLoading = False, res_isValid = True\<rparr> \<and>
   \<not> resolve_shouldFetch sample_env (Some upperCaseAddress) True \<and>
   token_class sample_env (Some (CHR '' '' # tokenContract)) = Address \<and>
   tok_address (useENSTokenAddress sample_env (Some (CHR '' '' # tokenContract)) True) =
     Some tokenContract \<and>
   \<not> tok_isENSName (useENSTokenAddress sample_env (Some (CHR '' '' # tokenContract)) True) \<and>
   \<not> tok_isLoading (useENSTokenAddress sample_env (Some (CHR '' '' # tokenContract)) True) \<and>
   \<not> tokenLookupEnabled (classifyInput sample_env (Some (CHR '' '' # tokenContract))) True \<and>
   tok_decimals (useENSTokenAddress sample_env (Some (CHR '' '' # tokenContract)) True) =
     Some 18 \<and>
   tok_isValid (useENSTokenAddress sample_env (Some (CHR '' '' # tokenContract)) True) \<and>
   token_class sample_env (Some ownerAccount) = Address \<and>
   \<not> tok_isValid (useENSTokenAddress sample_env (Some ownerAccount) True)"
proof -
  have a: "addressPattern upperCaseAddress" by (rule sample_addresses)
  have n: "tokenContract \<noteq> []" "ownerAccount \<noteq> []"
    by (simp_all add: addressPattern_nonempty sample_addresses)
  have t: "trim ownerAccount = ownerAccount"
    by (simp add: addressPattern_trim sample_addresses)
  note r = address_is_immediate[of upperCaseAddress sample_env True]
  from r[of "CHR '' '' # tokenContract"] r[of ownerAccount]
    a n t sample_token_class sample_trim_address
  show ?thesis by (simp add: sample_env_sel settled_sel sample_distinct)
qed

text \<open>
  Claim C9. When \<open>hasTokenRecord\<close> is true the input is on the name path and the returned
  address is the value of the \<open>token\<close> text record; on the address path the text-record lookup
  is not enabled and \<open>hasTokenRecord\<close> is false. Both hooks.
\<close>

theorem hasTokenRecord_address:
  "(tok_hasTokenRecord (useENSTokenAddress e input enabled) \<longrightarrow>
      tok_isENSName (useENSTokenAddress e input enabled) \<and>
      tok_address (useENSTokenAddress e input enabled) =
        q_data (tokenTextRecordQuery e (classifyInput e input) enabled)) \<and>
   (tok_hasTokenRecord (useENSTokenAddress_plain e input enabled) \<longrightarrow>
      tok_isENSName (useENSTokenAddress_plain e input enabled) \<and>
      tok_address (useENSTokenAddress_plain e input enabled) =
        q_data (tokenTextRecordQuery e (classifyInput_plain e input) enabled)) \<and>
   (token_class e input = Address \<longrightarrow>
      \<not> tokenLookupEnabled (classifyInput e input) enabled \<and>
      \<not> tok_hasTokenRecord (useENSTokenAddress e input enabled) \<and>
      \<not> tok_hasTokenRecord (useENSTokenAddress_plain e input enabled))"
proof -
  have a: "cls_isENSName (classifyInput e input)"
    if "validAddress e (q_data (tokenTextRecordQuery e (classifyInput e input) enabled))"
  proof (rule ccontr)
    assume "\<not> cls_isENSName (classifyInput e input)"
    then have "tokenTextRecordQuery e (classifyInput e input) enabled = idle"
      by (rule not_ens_queries)
    with that show False by (simp add: idle_sel validAddress_def)
  qed
  have b: "\<not> cls_isENSName (classifyInput e input)" if "token_class e input = Address"
    using that by (simp add: token_class_def split: if_splits)
  show ?thesis
    using a b
    by (auto simp add: tok_fields plain_fields classifyInput_plain_eq resolvedAddress_ens
        tokenLookupEnabled_def)
qed

theorem hasTokenRecord_address_witness:
  "tok_hasTokenRecord (useENSTokenAddress sample_env (Some ''dai.eth'') True) \<and>
   tok_hasTokenRecord (useENSTokenAddress_plain sample_env (Some ''dai.eth'') True) \<and>
   tok_address (useENSTokenAddress sample_env (Some ''dai.eth'') True) = Some tokenContract \<and>
   tok_address (useENSTokenAddress_plain sample_env (Some ''dai.eth'') True) = Some tokenContract \<and>
   token_class sample_env (Some tokenContract) = Address \<and>
   \<not> tok_hasTokenRecord (useENSTokenAddress sample_env (Some tokenContract) True) \<and>
   \<not> tok_hasTokenRecord (useENSTokenAddress_plain sample_env (Some tokenContract) True)"
proof -
  have a: "tok_hasTokenRecord (useENSTokenAddress sample_env (Some ''dai.eth'') True)"
    "tok_hasTokenRecord (useENSTokenAddress_plain sample_env (Some ''dai.eth'') True)"
    by (simp_all add: tok_fields plain_fields sample_queries sample_validAddress)
  from hasTokenRecord_address[of sample_env "Some ''dai.eth''" True]
    hasTokenRecord_address[of sample_env "Some tokenContract" True]
    a sample_token_class(1) sample_queries(1)
  show ?thesis by (simp add: classifyInput_plain_eq)
qed

text \<open>
  Claim C10. When the input is classified as a name, the returned \<open>ensName\<close> is what the
  normalizer returned for the trimmed input; it is absent when the input is missing or blank,
  is an address, or fails normalization. Both hooks.
\<close>

theorem ensName_is_normalized:
  "(tok_isENSName (useENSTokenAddress e (Some s) enabled) \<longrightarrow>
      (\<exists>n. ens_normalize e (trim s) = Inr n \<and>
           tok_ensName (useENSTokenAddress e (Some s) enabled) = Some n \<and>
           tok_ensName (useENSTokenAddress_plain e (Some s) enabled) = Some n)) \<and>
   (trim s \<noteq> [] \<and> \<not> isAddress e (trim s) \<and> includesChar (trim s) CHR ''.'' \<and>
    ens_normalize e (trim s) = Inr n \<longrightarrow>
      tok_isENSName (useENSTokenAddress e (Some s) enabled) \<and>
      tok_isENSName (useENSTokenAddress_plain e (Some s) enabled)) \<and>
   (trim s = [] \<or> isAddress e (trim s) \<or> (\<exists>err. ens_normalize e (trim s) = Inl err) \<longrightarrow>
      tok_ensName (useENSTokenAddress e (Some s) enabled) = None \<and>
      tok_ensName (useENSTokenAddress_plain e (Some s) enabled) = None) \<and>
   tok_ensName (useENSTokenAddress e None enabled) = None \<and>
   tok_ensName (useENSTokenAddress_plain e None enabled) = None"
proof -
  have a: "\<exists>n. ens_normalize e (trim s) = Inr n \<and> cls_normalizedName (classifyInput e (Some s)) = Some n"
    if "cls_isENSName (classifyInput e (Some s))"
    using that by (elim classifyInput_ens_cases) auto
  have b: "\<not> cls_isENSName (classifyInput e (Some s))"
    if "trim s = [] \<or> isAddress e (trim s) \<or> (\<exists>err. ens_normalize e (trim s) = Inl err)"
    using that a by (auto simp: classifyInput_blank classifyInput_address notENSName_def)
  have c: "cls_isENSName (classifyInput e (Some s))"
    if "trim s \<noteq> []" "\<not> isAddress e (trim s)" "includesChar (trim s) CHR ''.''"
      "ens_normalize e (trim s) = Inr n"
    using that by (simp add: classifyInput_name)
  show ?thesis
    using a b c
    by (auto simp add: tok_fields(2,3) plain_fields(2,3) classifyInput_None notENSName_def)
qed

theorem ensName_is_normalized_witness:
  "tok_isENSName (useENSTokenAddress sample_env (Some '' Vitalik.ETH '') True) \<and>
   trim '' Vitalik.ETH '' = ''Vitalik.ETH'' \<and>
   tok_ensName (useENSTokenAddress sample_env (Some '' Vitalik.ETH '') True) =
     Some ''vitalik.eth'' \<and>
   tok_ensName (useENSTokenAddress_plain sample_env (Some '' Vitalik.ETH '') True) =
     Some ''vitalik.eth'' \<and>
   tok_ensName (useENSTokenAddress sample_env (Some tokenContract) True) = None \<and>
   tok_ensName (useENSTokenAddress sample_env (Some ''bad..eth'') True) = None \<and>
   tok_ensName (useENSTokenAddress sample_env (Some []) True) = None"
proof -
  have h: "trim '' Vitalik.ETH '' \<noteq> []" "\<not> isAddress sample_env (trim '' Vitalik.ETH '')"
    "includesChar (trim '' Vitalik.ETH '') CHR ''.''"
    "ens_normalize sample_env (trim '' Vitalik.ETH '') = Inr ''vitalik.eth''"
    by (simp_all add: sample_trim sample_env_sel(3) sample_names_not_address includesChar_def
        lower_samples)
  have g: "isAddress sample_env (trim tokenContract)"
    "\<exists>err. ens_normalize sample_env (trim ''bad..eth'') = Inl err"
    "trim [] = []"
    by (simp_all add: addressPattern_trim sample_addresses sample_isAddress sample_env_sel(3)
        sample_trim trim_Nil)
  from ensName_is_normalized[of sample_env "'' Vitalik.ETH ''" True "''vitalik.eth''"]
    ensName_is_normalized[of sample_env tokenContract True "''vitalik.eth''"]
    ensName_is_normalized[of sample_env "''bad..eth''" True "''vitalik.eth''"]
    ensName_is_normalized[of sample_env "[]" True "''vitalik.eth''"]
    h g sample_trim(4)
  show ?thesis by simp
qed

end
